theory Spec2Isabelle
  imports Main "HOL-Library.AList" "HOL-Library.Multiset" "HOL-Library.Sublist"
    "HOL-Library.Word"
begin

section \<open>Values shared by the schema, the storage layer and the routes\<close>

text \<open>
  JSON values, as stored in the \<open>jsonb\<close> columns of the schema and carried by request
  bodies.
\<close>

datatype json =
    JNull
  | JBool bool
  | JNum int
  | JStr string
  | JArr "json list"
  | JObj "(string \<times> json) list"

text \<open>
  Reading a member of a parsed JSON value, for the names the routes read (\<open>id\<close>,
  \<open>correctAnswer\<close>, \<open>explanation\<close>, \<open>questions\<close>), none of which a built-in prototype
  defines: an object yields the member or \<open>undefined\<close> (\<open>None\<close>), every other value
  but \<open>null\<close> yields \<open>undefined\<close>. Reading a member of \<open>null\<close> raises; the callers
  test for it first.
\<close>

definition member :: "json \<Rightarrow> string \<Rightarrow> json option" where
  "member v name = (case v of JObj kvs \<Rightarrow> map_of kvs name | _ \<Rightarrow> None)"

text \<open>
  \<open>String(v)\<close> of a JSON value, as an index expression \<open>o[v]\<close> applies it to a key that
  is not a string. How a number prints is the runtime's: \<open>num\<close> stands for it. An array
  prints its elements joined by commas, \<open>null\<close> elements as the empty string.
\<close>

fun join :: "string list \<Rightarrow> string" where
  "join [] = []"
| "join [x] = x"
| "join (x # y # ys) = x @ '','' @ join (y # ys)"

fun to_string :: "(int \<Rightarrow> string) \<Rightarrow> json \<Rightarrow> string" where
  "to_string num JNull = ''null''"
| "to_string num (JBool b) = (if b then ''true'' else ''false'')"
| "to_string num (JNum n) = num n"
| "to_string num (JStr s) = s"
| "to_string num (JArr xs) = join (map (\<lambda>x. if x = JNull then [] else to_string num x) xs)"
| "to_string num (JObj kvs) = ''[object Object]''"

definition property_key :: "(int \<Rightarrow> string) \<Rightarrow> json option \<Rightarrow> string" where
  "property_key num v = (case v of None \<Rightarrow> ''undefined'' | Some j \<Rightarrow> to_string num j)"

text \<open>
  An optional and nullable property of an insert for a column that has a default: left
  out, \<open>null\<close>, or a value. For the other optional properties the two stores make no
  difference between a property left out and \<open>null\<close>, and \<open>None\<close> stands for both.
\<close>

datatype 'a optional = Omitted | Null | Present 'a

definition nullish :: "'a optional \<Rightarrow> 'a option" where
  "nullish x = (case x of Omitted \<Rightarrow> None | Null \<Rightarrow> None | Present v \<Rightarrow> Some v)"

text \<open>A \<open>Date\<close> is its \<open>getTime()\<close> value, in milliseconds.\<close>

type_synonym timestamp = nat

text \<open>
  JavaScript's \<open>x || d\<close> on an optional string: the default is taken when \<open>x\<close> is
  absent (\<open>None\<close>) and also when it is the empty string.
\<close>

definition or_default :: "string option \<Rightarrow> string \<Rightarrow> string" where
  "or_default x d = (case x of None \<Rightarrow> d | Some s \<Rightarrow> (if s = [] then d else s))"

definition or_null :: "string option \<Rightarrow> string option" where
  "or_null x = (case x of None \<Rightarrow> None | Some s \<Rightarrow> (if s = [] then None else Some s))"

fun falsy :: "json \<Rightarrow> bool" where
  "falsy JNull = True"
| "falsy (JBool b) = (\<not> b)"
| "falsy (JNum n) = (n = 0)"
| "falsy (JStr s) = (s = [])"
| "falsy (JArr xs) = False"
| "falsy (JObj kvs) = False"

definition or_null_json :: "json option \<Rightarrow> json option" where
  "or_null_json x = (case x of None \<Rightarrow> None | Some j \<Rightarrow> (if falsy j then None else Some j))"

text \<open>\<open>!x\<close> on an optional string such as \<open>req.userId\<close>.\<close>

definition not_str :: "string option \<Rightarrow> bool" where
  "not_str x = (case x of None \<Rightarrow> True | Some s \<Rightarrow> s = [])"

section \<open>Schema: the select and insert types\<close>

record user =
  u_id :: string
  u_username :: string
  u_password :: string
  u_email :: string
  u_plan :: string
  u_language :: string
  u_createdAt :: "timestamp option"
  u_role :: "string option"

text \<open>
  \<open>InsertUser\<close>: \<open>language\<close> and \<open>plan\<close> are optional and, their columns being
  \<open>notNull\<close>, not nullable; \<open>None\<close> is the property left out. \<open>role\<close> is no column of
  the schema; the in-memory store reads it all the same.
\<close>

record insertUser =
  iu_username :: string
  iu_password :: string
  iu_email :: string
  iu_language :: "string option"
  iu_plan :: "string option"
  iu_role :: "string option"

text \<open>
  \<open>Partial<User>\<close>: every field of the select type, each one optional. \<open>None\<close> is a
  field absent from the update.
\<close>

record partialUser =
  pu_id :: "string option"
  pu_username :: "string option"
  pu_password :: "string option"
  pu_email :: "string option"
  pu_plan :: "string option"
  pu_language :: "string option"
  pu_createdAt :: "timestamp option option"

record material =
  mat_id :: string
  mat_userId :: string
  mat_filename :: string
  mat_type :: string
  mat_content :: "string option"
  mat_metadata :: "json option"
  mat_uploadedAt :: "timestamp option"

record insertMaterial =
  im_filename :: string
  im_type :: string
  im_content :: "string option"
  im_metadata :: "json option"
  im_userId :: string

record conversation =
  conv_id :: string
  conv_userId :: string
  conv_title :: "string option"
  conv_createdAt :: "timestamp option"

record insertConversation =
  ic_title :: "string option"
  ic_userId :: string

record message =
  msg_id :: string
  msg_conversationId :: string
  msg_role :: string
  msg_content :: string
  msg_audioUrl :: "string option"
  msg_materialIds :: "json option"
  msg_timestamp :: "timestamp option"

record insertMessage =
  imsg_conversationId :: string
  imsg_role :: string
  imsg_content :: string
  imsg_audioUrl :: "string option"
  imsg_materialIds :: "json option"

record mindMap =
  mm_id :: string
  mm_userId :: string
  mm_title :: string
  mm_nodes :: json
  mm_materialIds :: "json option"
  mm_createdAt :: "timestamp option"
  mm_updatedAt :: "timestamp option"

record insertMindMap =
  imm_title :: string
  imm_nodes :: json
  imm_materialIds :: "json option"
  imm_userId :: string

text \<open>
  \<open>Partial<MindMap>\<close>: every field of the select type, each one optional. \<open>None\<close> is a
  field absent from the update.
\<close>

record partialMindMap =
  pm_id :: "string option"
  pm_userId :: "string option"
  pm_title :: "string option"
  pm_nodes :: "json option"
  pm_materialIds :: "json option option"
  pm_createdAt :: "timestamp option option"
  pm_updatedAt :: "timestamp option option"

text \<open>
  The questions of a quiz and the answers of an attempt are \<open>jsonb\<close> columns: any JSON
  value. The generation route stores what the model returned, as it is.
\<close>

record quiz =
  quiz_id :: string
  quiz_userId :: string
  quiz_title :: string
  quiz_questions :: json
  quiz_materialIds :: "json option"
  quiz_difficulty :: "string option"
  quiz_createdAt :: "timestamp option"

record insertQuiz =
  iq_title :: string
  iq_questions :: json
  iq_materialIds :: "json option"
  iq_difficulty :: "string optional"
  iq_userId :: string

record quizAttempt =
  att_id :: string
  att_userId :: string
  att_quizId :: string
  att_answers :: json
  att_score :: nat
  att_totalQuestions :: nat
  att_completedAt :: "timestamp option"

record insertQuizAttempt =
  ia_quizId :: string
  ia_answers :: json
  ia_score :: nat
  ia_totalQuestions :: nat
  ia_userId :: string

section \<open>MemStorage\<close>

text \<open>
  A JavaScript \<open>Map\<close> keeps its entries in insertion order: \<open>set\<close> on a present key
  replaces the value in place, on a new key it appends; \<open>delete\<close> reports whether the key
  was there. The identifier (\<open>randomUUID()\<close>) and the time (\<open>new Date()\<close>) of each
  operation are arguments of the model.
\<close>

type_synonym 'v jsmap = "(string \<times> 'v) list"

definition map_get :: "'v jsmap \<Rightarrow> string \<Rightarrow> 'v option" where
  "map_get m k = map_of m k"

definition map_set :: "'v jsmap \<Rightarrow> string \<Rightarrow> 'v \<Rightarrow> 'v jsmap" where
  "map_set m k v = AList.update k v m"

definition map_has :: "'v jsmap \<Rightarrow> string \<Rightarrow> bool" where
  "map_has m k = (k \<in> set (map fst m))"

definition map_delete :: "'v jsmap \<Rightarrow> string \<Rightarrow> bool \<times> 'v jsmap" where
  "map_delete m k = (map_has m k, AList.delete k m)"

definition map_values :: "'v jsmap \<Rightarrow> 'v list" where
  "map_values m = map snd m"

text \<open>\<open>Array.prototype.find\<close>.\<close>

definition array_find :: "('a \<Rightarrow> bool) \<Rightarrow> 'a list \<Rightarrow> 'a option" where
  "array_find p xs = List.find p xs"

record memStorage =
  users :: "user jsmap"
  materials :: "material jsmap"
  conversations :: "conversation jsmap"
  messages :: "message jsmap"
  mindMaps :: "mindMap jsmap"
  quizzes :: "quiz jsmap"
  quizAttempts :: "quizAttempt jsmap"

definition newMemStorage :: memStorage where
  "newMemStorage = \<lparr> users = [], materials = [], conversations = [], messages = [],
     mindMaps = [], quizzes = [], quizAttempts = [] \<rparr>"

subsection \<open>Users\<close>

definition mem_getUser :: "memStorage \<Rightarrow> string \<Rightarrow> user option" where
  "mem_getUser s i = map_get (users s) i"

definition mem_getUserByUsername :: "memStorage \<Rightarrow> string \<Rightarrow> user option" where
  "mem_getUserByUsername s name = array_find (\<lambda>u. u_username u = name) (map_values (users s))"

definition mem_getUserByEmail :: "memStorage \<Rightarrow> string \<Rightarrow> user option" where
  "mem_getUserByEmail s email = array_find (\<lambda>u. u_email u = email) (map_values (users s))"

definition mem_createUser :: "string \<Rightarrow> timestamp \<Rightarrow> insertUser \<Rightarrow> memStorage \<Rightarrow> user \<times> memStorage" where
  "mem_createUser newId now iu s =
     (let u = \<lparr> u_id = newId, u_username = iu_username iu, u_password = iu_password iu,
                u_email = iu_email iu,
                u_plan = or_default (iu_plan iu) ''free'',
                u_language = or_default (iu_language iu) ''en'',
                u_createdAt = Some now,
                u_role = Some (or_default (iu_role iu) ''student'') \<rparr>
      in (u, s\<lparr> users := map_set (users s) newId u \<rparr>))"

text \<open>The object spread \<open>{ ...user, ...updates }\<close>: a field present in the update wins.\<close>

definition spread_user :: "user \<Rightarrow> partialUser \<Rightarrow> user" where
  "spread_user u p =
     \<lparr> u_id = (case pu_id p of None \<Rightarrow> u_id u | Some v \<Rightarrow> v),
       u_username = (case pu_username p of None \<Rightarrow> u_username u | Some v \<Rightarrow> v),
       u_password = (case pu_password p of None \<Rightarrow> u_password u | Some v \<Rightarrow> v),
       u_email = (case pu_email p of None \<Rightarrow> u_email u | Some v \<Rightarrow> v),
       u_plan = (case pu_plan p of None \<Rightarrow> u_plan u | Some v \<Rightarrow> v),
       u_language = (case pu_language p of None \<Rightarrow> u_language u | Some v \<Rightarrow> v),
       u_createdAt = (case pu_createdAt p of None \<Rightarrow> u_createdAt u | Some v \<Rightarrow> v),
       u_role = u_role u \<rparr>"

definition mem_updateUser :: "string \<Rightarrow> partialUser \<Rightarrow> memStorage \<Rightarrow> user option \<times> memStorage" where
  "mem_updateUser i updates s =
     (case map_get (users s) i of
        None \<Rightarrow> (None, s)
      | Some u \<Rightarrow>
          (let updatedUser = spread_user u updates
           in (Some updatedUser, s\<lparr> users := map_set (users s) i updatedUser \<rparr>)))"

subsection \<open>Materials\<close>

definition mem_getMaterial :: "memStorage \<Rightarrow> string \<Rightarrow> material option" where
  "mem_getMaterial s i = map_get (materials s) i"

definition mem_getMaterialsByUser :: "memStorage \<Rightarrow> string \<Rightarrow> material list" where
  "mem_getMaterialsByUser s uid = filter (\<lambda>m. mat_userId m = uid) (map_values (materials s))"

definition mem_createMaterial ::
  "string \<Rightarrow> timestamp \<Rightarrow> insertMaterial \<Rightarrow> memStorage \<Rightarrow> material \<times> memStorage" where
  "mem_createMaterial newId now im s =
     (let newMaterial = \<lparr> mat_id = newId, mat_userId = im_userId im,
                           mat_filename = im_filename im, mat_type = im_type im,
                           mat_content = or_null (im_content im),
                           mat_metadata = or_null_json (im_metadata im),
                           mat_uploadedAt = Some now \<rparr>
      in (newMaterial, s\<lparr> materials := map_set (materials s) newId newMaterial \<rparr>))"

definition mem_deleteMaterial :: "string \<Rightarrow> memStorage \<Rightarrow> bool \<times> memStorage" where
  "mem_deleteMaterial i s =
     (let (b, m) = map_delete (materials s) i in (b, s\<lparr> materials := m \<rparr>))"

subsection \<open>Conversations and messages\<close>

definition mem_getConversation :: "memStorage \<Rightarrow> string \<Rightarrow> conversation option" where
  "mem_getConversation s i = map_get (conversations s) i"

definition mem_getConversationsByUser :: "memStorage \<Rightarrow> string \<Rightarrow> conversation list" where
  "mem_getConversationsByUser s uid =
     filter (\<lambda>c. conv_userId c = uid) (map_values (conversations s))"

definition mem_createConversation ::
  "string \<Rightarrow> timestamp \<Rightarrow> insertConversation \<Rightarrow> memStorage \<Rightarrow> conversation \<times> memStorage" where
  "mem_createConversation newId now ic s =
     (let newConversation = \<lparr> conv_id = newId, conv_userId = ic_userId ic,
                               conv_title = or_null (ic_title ic),
                               conv_createdAt = Some now \<rparr>
      in (newConversation, s\<lparr> conversations := map_set (conversations s) newId newConversation \<rparr>))"

text \<open>
  \<open>deleteConversation\<close> first collects the entries whose message refers to the
  conversation, deletes each of them by key, then deletes the conversation.
\<close>

definition mem_deleteConversation :: "string \<Rightarrow> memStorage \<Rightarrow> bool \<times> memStorage" where
  "mem_deleteConversation i s =
     (let related = filter (\<lambda>(k, m). msg_conversationId m = i) (messages s);
          msgs = fold (\<lambda>(messageId, m) acc. snd (map_delete acc messageId)) related (messages s);
          (b, cs) = map_delete (conversations s) i
      in (b, s\<lparr> messages := msgs, conversations := cs \<rparr>))"

definition mem_getMessage :: "memStorage \<Rightarrow> string \<Rightarrow> message option" where
  "mem_getMessage s i = map_get (messages s) i"

text \<open>
  \<open>Array.prototype.sort\<close> is stable; the comparator is the difference of the two
  timestamps. A missing timestamp cannot occur in this store: \<open>createMessage\<close> always
  sets it.
\<close>

definition timestamp_key :: "message \<Rightarrow> nat" where
  "timestamp_key m = (case msg_timestamp m of None \<Rightarrow> 0 | Some t \<Rightarrow> t)"

definition mem_getMessagesByConversation :: "memStorage \<Rightarrow> string \<Rightarrow> message list" where
  "mem_getMessagesByConversation s cid =
     sort_key timestamp_key (filter (\<lambda>m. msg_conversationId m = cid) (map_values (messages s)))"

definition mem_createMessage ::
  "string \<Rightarrow> timestamp \<Rightarrow> insertMessage \<Rightarrow> memStorage \<Rightarrow> message \<times> memStorage" where
  "mem_createMessage newId now im s =
     (let newMessage = \<lparr> msg_id = newId, msg_conversationId = imsg_conversationId im,
                          msg_role = imsg_role im, msg_content = imsg_content im,
                          msg_audioUrl = or_null (imsg_audioUrl im),
                          msg_materialIds = or_null_json (imsg_materialIds im),
                          msg_timestamp = Some now \<rparr>
      in (newMessage, s\<lparr> messages := map_set (messages s) newId newMessage \<rparr>))"

subsection \<open>Mind maps\<close>

definition mem_getMindMap :: "memStorage \<Rightarrow> string \<Rightarrow> mindMap option" where
  "mem_getMindMap s i = map_get (mindMaps s) i"

definition mem_getMindMapsByUser :: "memStorage \<Rightarrow> string \<Rightarrow> mindMap list" where
  "mem_getMindMapsByUser s uid = filter (\<lambda>m. mm_userId m = uid) (map_values (mindMaps s))"

definition mem_createMindMap ::
  "string \<Rightarrow> timestamp \<Rightarrow> insertMindMap \<Rightarrow> memStorage \<Rightarrow> mindMap \<times> memStorage" where
  "mem_createMindMap newId now im s =
     (let newMindMap = \<lparr> mm_id = newId, mm_userId = imm_userId im, mm_title = imm_title im,
                          mm_nodes = imm_nodes im,
                          mm_materialIds = or_null_json (imm_materialIds im),
                          mm_createdAt = Some now, mm_updatedAt = Some now \<rparr>
      in (newMindMap, s\<lparr> mindMaps := map_set (mindMaps s) newId newMindMap \<rparr>))"

text \<open>The object spread \<open>{ ...mindMap, ...updates }\<close>: a field present in the update wins.\<close>

definition spread_mindMap :: "mindMap \<Rightarrow> partialMindMap \<Rightarrow> mindMap" where
  "spread_mindMap m p =
     \<lparr> mm_id = (case pm_id p of None \<Rightarrow> mm_id m | Some v \<Rightarrow> v),
       mm_userId = (case pm_userId p of None \<Rightarrow> mm_userId m | Some v \<Rightarrow> v),
       mm_title = (case pm_title p of None \<Rightarrow> mm_title m | Some v \<Rightarrow> v),
       mm_nodes = (case pm_nodes p of None \<Rightarrow> mm_nodes m | Some v \<Rightarrow> v),
       mm_materialIds = (case pm_materialIds p of None \<Rightarrow> mm_materialIds m | Some v \<Rightarrow> v),
       mm_createdAt = (case pm_createdAt p of None \<Rightarrow> mm_createdAt m | Some v \<Rightarrow> v),
       mm_updatedAt = (case pm_updatedAt p of None \<Rightarrow> mm_updatedAt m | Some v \<Rightarrow> v) \<rparr>"

definition mem_updateMindMap ::
  "timestamp \<Rightarrow> string \<Rightarrow> partialMindMap \<Rightarrow> memStorage \<Rightarrow> mindMap option \<times> memStorage" where
  "mem_updateMindMap now i updates s =
     (case map_get (mindMaps s) i of
        None \<Rightarrow> (None, s)
      | Some m \<Rightarrow>
          (let updatedMindMap = (spread_mindMap m updates)\<lparr> mm_updatedAt := Some now \<rparr>
           in (Some updatedMindMap, s\<lparr> mindMaps := map_set (mindMaps s) i updatedMindMap \<rparr>)))"

definition mem_deleteMindMap :: "string \<Rightarrow> memStorage \<Rightarrow> bool \<times> memStorage" where
  "mem_deleteMindMap i s =
     (let (b, m) = map_delete (mindMaps s) i in (b, s\<lparr> mindMaps := m \<rparr>))"

subsection \<open>Quizzes and attempts\<close>

definition mem_getQuiz :: "memStorage \<Rightarrow> string \<Rightarrow> quiz option" where
  "mem_getQuiz s i = map_get (quizzes s) i"

definition mem_getQuizzesByUser :: "memStorage \<Rightarrow> string \<Rightarrow> quiz list" where
  "mem_getQuizzesByUser s uid = filter (\<lambda>q. quiz_userId q = uid) (map_values (quizzes s))"

definition mem_createQuiz :: "string \<Rightarrow> timestamp \<Rightarrow> insertQuiz \<Rightarrow> memStorage \<Rightarrow> quiz \<times> memStorage" where
  "mem_createQuiz newId now iq s =
     (let newQuiz = \<lparr> quiz_id = newId, quiz_userId = iq_userId iq, quiz_title = iq_title iq,
                       quiz_questions = iq_questions iq,
                       quiz_materialIds = or_null_json (iq_materialIds iq),
                       quiz_difficulty = Some (or_default (nullish (iq_difficulty iq)) ''medium''),
                       quiz_createdAt = Some now \<rparr>
      in (newQuiz, s\<lparr> quizzes := map_set (quizzes s) newId newQuiz \<rparr>))"

definition mem_deleteQuiz :: "string \<Rightarrow> memStorage \<Rightarrow> bool \<times> memStorage" where
  "mem_deleteQuiz i s =
     (let (b, m) = map_delete (quizzes s) i in (b, s\<lparr> quizzes := m \<rparr>))"

definition mem_getQuizAttempt :: "memStorage \<Rightarrow> string \<Rightarrow> quizAttempt option" where
  "mem_getQuizAttempt s i = map_get (quizAttempts s) i"

definition mem_getQuizAttemptsByUser :: "memStorage \<Rightarrow> string \<Rightarrow> quizAttempt list" where
  "mem_getQuizAttemptsByUser s uid =
     filter (\<lambda>a. att_userId a = uid) (map_values (quizAttempts s))"

definition mem_createQuizAttempt ::
  "string \<Rightarrow> timestamp \<Rightarrow> insertQuizAttempt \<Rightarrow> memStorage \<Rightarrow> quizAttempt \<times> memStorage" where
  "mem_createQuizAttempt newId now ia s =
     (let newAttempt = \<lparr> att_id = newId, att_userId = ia_userId ia, att_quizId = ia_quizId ia,
                          att_answers = ia_answers ia, att_score = ia_score ia,
                          att_totalQuestions = ia_totalQuestions ia,
                          att_completedAt = Some now \<rparr>
      in (newAttempt, s\<lparr> quizAttempts := map_set (quizAttempts s) newId newAttempt \<rparr>))"

section \<open>Exceptions\<close>

text \<open>
  Every exception that can reach a route's \<open>catch\<close> clause. All of them are instances of
  \<open>Error\<close>, so a route that answers with \<open>error.message\<close> answers with the message of
  the exception it caught. The last four are raised by the database layer: the constraints are
  those the schema declares (\<open>primaryKey\<close>, \<open>unique\<close>, \<open>references\<close>, \<open>notNull\<close>), and
  an \<open>update\<close> whose \<open>set\<close> carries no value is refused by the query builder.
\<close>

datatype js_error =
    ZodError
  | TypeError
  | RangeError
  | SyntaxError
  | MissingApiKey
  | GatewayError nat string
  | UniqueViolation
  | ForeignKeyViolation
  | NotNullViolation
  | NoValuesToSet

section \<open>DatabaseStorage\<close>

text \<open>
  A table is the list of its rows, in the order a \<open>select\<close> without \<open>orderBy\<close> returns
  them. \<open>select ... where\<close> keeps the rows that satisfy the condition,
  \<open>insert ... returning\<close> appends the row completed by the column defaults,
  \<open>update ... set ... where ... returning\<close> writes the new version of each matching row
  behind the other rows and returns it, \<open>delete ... where ... returning\<close> removes and
  returns the matching rows. A statement that would break a declared constraint raises and
  changes nothing.
\<close>

record dbStorage =
  db_users :: "user list"
  db_materials :: "material list"
  db_conversations :: "conversation list"
  db_messages :: "message list"
  db_mindMaps :: "mindMap list"
  db_quizzes :: "quiz list"
  db_quizAttempts :: "quizAttempt list"

definition newDatabaseStorage :: dbStorage where
  "newDatabaseStorage = \<lparr> db_users = [], db_materials = [], db_conversations = [],
     db_messages = [], db_mindMaps = [], db_quizzes = [], db_quizAttempts = [] \<rparr>"

text \<open>\<open>result[0]\<close>.\<close>

definition first_row :: "'r list \<Rightarrow> 'r option" where
  "first_row rs = (case rs of [] \<Rightarrow> None | r # _ \<Rightarrow> Some r)"

text \<open>A column default applies when the insert leaves the column out.\<close>

definition column_default :: "string option \<Rightarrow> string \<Rightarrow> string" where
  "column_default x d = (case x of None \<Rightarrow> d | Some s \<Rightarrow> s)"

text \<open>On a nullable column an explicit \<open>null\<close> is written as it is, \<open>None\<close> here.\<close>

definition nullable_default :: "string optional \<Rightarrow> string \<Rightarrow> string option" where
  "nullable_default x d = (case x of Omitted \<Rightarrow> Some d | Null \<Rightarrow> None | Present s \<Rightarrow> Some s)"

text \<open>A JavaScript \<open>null\<close> written to a nullable \<open>jsonb\<close> column is the SQL \<open>NULL\<close>.\<close>

definition jsonb_nullable :: "json option \<Rightarrow> json option" where
  "jsonb_nullable x = (if x = Some JNull then None else x)"

subsection \<open>Users\<close>

definition db_getUser :: "dbStorage \<Rightarrow> string \<Rightarrow> user option" where
  "db_getUser d i = first_row (filter (\<lambda>u. u_id u = i) (db_users d))"

definition db_getUserByUsername :: "dbStorage \<Rightarrow> string \<Rightarrow> user option" where
  "db_getUserByUsername d name = first_row (filter (\<lambda>u. u_username u = name) (db_users d))"

definition db_getUserByEmail :: "dbStorage \<Rightarrow> string \<Rightarrow> user option" where
  "db_getUserByEmail d email = first_row (filter (\<lambda>u. u_email u = email) (db_users d))"

definition db_createUser ::
  "string \<Rightarrow> timestamp \<Rightarrow> insertUser \<Rightarrow> dbStorage \<Rightarrow> js_error + (user \<times> dbStorage)" where
  "db_createUser newId now iu d =
     (if newId \<in> set (map u_id (db_users d)) then Inl UniqueViolation
      else if iu_username iu \<in> set (map u_username (db_users d)) then Inl UniqueViolation
      else if iu_email iu \<in> set (map u_email (db_users d)) then Inl UniqueViolation
      else
        (let row = \<lparr> u_id = newId, u_username = iu_username iu, u_password = iu_password iu,
                      u_email = iu_email iu,
                      u_plan = column_default (iu_plan iu) ''free'',
                      u_language = column_default (iu_language iu) ''en'',
                      u_createdAt = Some now,
                      u_role = None \<rparr>
         in Inr (row, d\<lparr> db_users := db_users d @ [row] \<rparr>)))"

text \<open>
  The rows of the other tables that refer to the user \<open>i\<close>; while there is one, the id of
  the user cannot change.
\<close>

definition user_referenced :: "dbStorage \<Rightarrow> string \<Rightarrow> bool" where
  "user_referenced d i =
     (i \<in> set (map mat_userId (db_materials d)) \<or> i \<in> set (map conv_userId (db_conversations d))
      \<or> i \<in> set (map mm_userId (db_mindMaps d)) \<or> i \<in> set (map quiz_userId (db_quizzes d))
      \<or> i \<in> set (map att_userId (db_quizAttempts d)))"

text \<open>
  \<open>set(updates)\<close> on the rows whose id is \<open>i\<close>. The query builder refuses an update
  that carries no value before anything is sent. With no such row the statement touches
  nothing and the result is \<open>undefined\<close>.
\<close>

definition db_updateUser ::
  "string \<Rightarrow> partialUser \<Rightarrow> dbStorage \<Rightarrow> js_error + (user option \<times> dbStorage)" where
  "db_updateUser i updates d =
     (let target = filter (\<lambda>u. u_id u = i) (db_users d);
          others = filter (\<lambda>u. u_id u \<noteq> i) (db_users d)
      in if pu_id updates = None \<and> pu_username updates = None \<and> pu_password updates = None
            \<and> pu_email updates = None \<and> pu_plan updates = None \<and> pu_language updates = None
            \<and> pu_createdAt updates = None
         then Inl NoValuesToSet
         else if target = [] then Inr (None, d)
         else if (case pu_id updates of None \<Rightarrow> False
                  | Some j \<Rightarrow> j \<in> set (map u_id others))
         then Inl UniqueViolation
         else if (case pu_username updates of None \<Rightarrow> False
                  | Some n \<Rightarrow> n \<in> set (map u_username others))
         then Inl UniqueViolation
         else if (case pu_email updates of None \<Rightarrow> False
                  | Some e \<Rightarrow> e \<in> set (map u_email others))
         then Inl UniqueViolation
         else if (case pu_id updates of None \<Rightarrow> False
                  | Some j \<Rightarrow> j \<noteq> i \<and> user_referenced d i)
         then Inl ForeignKeyViolation
         else Inr (first_row (map (\<lambda>u. spread_user u updates) target),
                   d\<lparr> db_users := others @ map (\<lambda>u. spread_user u updates) target \<rparr>))"

subsection \<open>Materials\<close>

definition db_getMaterial :: "dbStorage \<Rightarrow> string \<Rightarrow> material option" where
  "db_getMaterial d i = first_row (filter (\<lambda>m. mat_id m = i) (db_materials d))"

definition db_getMaterialsByUser :: "dbStorage \<Rightarrow> string \<Rightarrow> material list" where
  "db_getMaterialsByUser d uid = filter (\<lambda>m. mat_userId m = uid) (db_materials d)"

definition db_createMaterial ::
  "string \<Rightarrow> timestamp \<Rightarrow> insertMaterial \<Rightarrow> dbStorage \<Rightarrow> js_error + (material \<times> dbStorage)" where
  "db_createMaterial newId now im d =
     (if newId \<in> set (map mat_id (db_materials d)) then Inl UniqueViolation
      else if im_userId im \<notin> set (map u_id (db_users d)) then Inl ForeignKeyViolation
      else
        (let row = \<lparr> mat_id = newId, mat_userId = im_userId im,
                      mat_filename = im_filename im, mat_type = im_type im,
                      mat_content = im_content im,
                      mat_metadata = jsonb_nullable (im_metadata im),
                      mat_uploadedAt = Some now \<rparr>
         in Inr (row, d\<lparr> db_materials := db_materials d @ [row] \<rparr>)))"

definition db_deleteMaterial :: "string \<Rightarrow> dbStorage \<Rightarrow> js_error + (bool \<times> dbStorage)" where
  "db_deleteMaterial i d =
     (let result = filter (\<lambda>m. mat_id m = i) (db_materials d)
      in Inr (0 < length result,
              d\<lparr> db_materials := filter (\<lambda>m. mat_id m \<noteq> i) (db_materials d) \<rparr>))"

subsection \<open>Conversations and messages\<close>

definition db_getConversation :: "dbStorage \<Rightarrow> string \<Rightarrow> conversation option" where
  "db_getConversation d i = first_row (filter (\<lambda>c. conv_id c = i) (db_conversations d))"

definition db_getConversationsByUser :: "dbStorage \<Rightarrow> string \<Rightarrow> conversation list" where
  "db_getConversationsByUser d uid = filter (\<lambda>c. conv_userId c = uid) (db_conversations d)"

definition db_createConversation ::
  "string \<Rightarrow> timestamp \<Rightarrow> insertConversation \<Rightarrow> dbStorage
     \<Rightarrow> js_error + (conversation \<times> dbStorage)" where
  "db_createConversation newId now ic d =
     (if newId \<in> set (map conv_id (db_conversations d)) then Inl UniqueViolation
      else if ic_userId ic \<notin> set (map u_id (db_users d)) then Inl ForeignKeyViolation
      else
        (let row = \<lparr> conv_id = newId, conv_userId = ic_userId ic, conv_title = ic_title ic,
                      conv_createdAt = Some now \<rparr>
         in Inr (row, d\<lparr> db_conversations := db_conversations d @ [row] \<rparr>)))"

text \<open>
  Two statements: the messages of the conversation go first, then the conversation. The
  second statement is refused while a message still refers to a conversation it removes.
\<close>

definition db_deleteConversation :: "string \<Rightarrow> dbStorage \<Rightarrow> js_error + (bool \<times> dbStorage)" where
  "db_deleteConversation i d =
     (let msgs = filter (\<lambda>m. msg_conversationId m \<noteq> i) (db_messages d);
          result = filter (\<lambda>c. conv_id c = i) (db_conversations d)
      in if result \<noteq> [] \<and> list_ex (\<lambda>m. msg_conversationId m = i) msgs
         then Inl ForeignKeyViolation
         else Inr (0 < length result,
                   d\<lparr> db_messages := msgs,
                      db_conversations := filter (\<lambda>c. conv_id c \<noteq> i) (db_conversations d) \<rparr>))"

definition db_getMessage :: "dbStorage \<Rightarrow> string \<Rightarrow> message option" where
  "db_getMessage d i = first_row (filter (\<lambda>m. msg_id m = i) (db_messages d))"

text \<open>\<open>orderBy(asc(messages.timestamp))\<close>; every stored message has a timestamp.\<close>

definition db_getMessagesByConversation :: "dbStorage \<Rightarrow> string \<Rightarrow> message list" where
  "db_getMessagesByConversation d cid =
     sort_key timestamp_key (filter (\<lambda>m. msg_conversationId m = cid) (db_messages d))"

definition db_createMessage ::
  "string \<Rightarrow> timestamp \<Rightarrow> insertMessage \<Rightarrow> dbStorage \<Rightarrow> js_error + (message \<times> dbStorage)" where
  "db_createMessage newId now im d =
     (if newId \<in> set (map msg_id (db_messages d)) then Inl UniqueViolation
      else if imsg_conversationId im \<notin> set (map conv_id (db_conversations d))
      then Inl ForeignKeyViolation
      else
        (let row = \<lparr> msg_id = newId, msg_conversationId = imsg_conversationId im,
                      msg_role = imsg_role im, msg_content = imsg_content im,
                      msg_audioUrl = imsg_audioUrl im,
                      msg_materialIds = jsonb_nullable (imsg_materialIds im),
                      msg_timestamp = Some now \<rparr>
         in Inr (row, d\<lparr> db_messages := db_messages d @ [row] \<rparr>)))"

subsection \<open>Mind maps\<close>

definition db_getMindMap :: "dbStorage \<Rightarrow> string \<Rightarrow> mindMap option" where
  "db_getMindMap d i = first_row (filter (\<lambda>m. mm_id m = i) (db_mindMaps d))"

definition db_getMindMapsByUser :: "dbStorage \<Rightarrow> string \<Rightarrow> mindMap list" where
  "db_getMindMapsByUser d uid = filter (\<lambda>m. mm_userId m = uid) (db_mindMaps d)"

definition db_createMindMap ::
  "string \<Rightarrow> timestamp \<Rightarrow> insertMindMap \<Rightarrow> dbStorage \<Rightarrow> js_error + (mindMap \<times> dbStorage)" where
  "db_createMindMap newId now im d =
     (if imm_nodes im = JNull then Inl NotNullViolation
      else if newId \<in> set (map mm_id (db_mindMaps d)) then Inl UniqueViolation
      else if imm_userId im \<notin> set (map u_id (db_users d)) then Inl ForeignKeyViolation
      else
        (let row = \<lparr> mm_id = newId, mm_userId = imm_userId im, mm_title = imm_title im,
                      mm_nodes = imm_nodes im,
                      mm_materialIds = jsonb_nullable (imm_materialIds im),
                      mm_createdAt = Some now, mm_updatedAt = Some now \<rparr>
         in Inr (row, d\<lparr> db_mindMaps := db_mindMaps d @ [row] \<rparr>)))"

text \<open>
  \<open>set({ ...updates, updatedAt: new Date() })\<close> on the rows whose id is \<open>i\<close>. With no
  such row the statement touches nothing and the result is \<open>undefined\<close>.
\<close>

definition db_updateMindMap ::
  "timestamp \<Rightarrow> string \<Rightarrow> partialMindMap \<Rightarrow> dbStorage
     \<Rightarrow> js_error + (mindMap option \<times> dbStorage)" where
  "db_updateMindMap now i updates d =
     (let upd = (\<lambda>m. (spread_mindMap m updates)\<lparr> mm_updatedAt := Some now \<rparr>);
          target = filter (\<lambda>m. mm_id m = i) (db_mindMaps d);
          others = filter (\<lambda>m. mm_id m \<noteq> i) (db_mindMaps d)
      in if target = [] then Inr (None, d)
         else if pm_nodes updates = Some JNull then Inl NotNullViolation
         else if (case pm_id updates of None \<Rightarrow> False
                  | Some j \<Rightarrow> j \<in> set (map mm_id others))
         then Inl UniqueViolation
         else if (case pm_userId updates of None \<Rightarrow> False
                  | Some u \<Rightarrow> u \<notin> set (map u_id (db_users d)))
         then Inl ForeignKeyViolation
         else Inr (first_row (map upd target), d\<lparr> db_mindMaps := others @ map upd target \<rparr>))"

definition db_deleteMindMap :: "string \<Rightarrow> dbStorage \<Rightarrow> js_error + (bool \<times> dbStorage)" where
  "db_deleteMindMap i d =
     (let result = filter (\<lambda>m. mm_id m = i) (db_mindMaps d)
      in Inr (0 < length result,
              d\<lparr> db_mindMaps := filter (\<lambda>m. mm_id m \<noteq> i) (db_mindMaps d) \<rparr>))"

subsection \<open>Quizzes and attempts\<close>

definition db_getQuiz :: "dbStorage \<Rightarrow> string \<Rightarrow> quiz option" where
  "db_getQuiz d i = first_row (filter (\<lambda>q. quiz_id q = i) (db_quizzes d))"

definition db_getQuizzesByUser :: "dbStorage \<Rightarrow> string \<Rightarrow> quiz list" where
  "db_getQuizzesByUser d uid = filter (\<lambda>q. quiz_userId q = uid) (db_quizzes d)"

definition db_createQuiz ::
  "string \<Rightarrow> timestamp \<Rightarrow> insertQuiz \<Rightarrow> dbStorage \<Rightarrow> js_error + (quiz \<times> dbStorage)" where
  "db_createQuiz newId now iq d =
     (if iq_questions iq = JNull then Inl NotNullViolation
      else if newId \<in> set (map quiz_id (db_quizzes d)) then Inl UniqueViolation
      else if iq_userId iq \<notin> set (map u_id (db_users d)) then Inl ForeignKeyViolation
      else
        (let row = \<lparr> quiz_id = newId, quiz_userId = iq_userId iq, quiz_title = iq_title iq,
                      quiz_questions = iq_questions iq,
                      quiz_materialIds = jsonb_nullable (iq_materialIds iq),
                      quiz_difficulty = nullable_default (iq_difficulty iq) ''medium'',
                      quiz_createdAt = Some now \<rparr>
         in Inr (row, d\<lparr> db_quizzes := db_quizzes d @ [row] \<rparr>)))"

definition db_deleteQuiz :: "string \<Rightarrow> dbStorage \<Rightarrow> js_error + (bool \<times> dbStorage)" where
  "db_deleteQuiz i d =
     (let result = filter (\<lambda>q. quiz_id q = i) (db_quizzes d)
      in if result \<noteq> [] \<and> list_ex (\<lambda>a. att_quizId a = i) (db_quizAttempts d)
         then Inl ForeignKeyViolation
         else Inr (0 < length result,
                   d\<lparr> db_quizzes := filter (\<lambda>q. quiz_id q \<noteq> i) (db_quizzes d) \<rparr>))"

definition db_getQuizAttempt :: "dbStorage \<Rightarrow> string \<Rightarrow> quizAttempt option" where
  "db_getQuizAttempt d i = first_row (filter (\<lambda>a. att_id a = i) (db_quizAttempts d))"

definition db_getQuizAttemptsByUser :: "dbStorage \<Rightarrow> string \<Rightarrow> quizAttempt list" where
  "db_getQuizAttemptsByUser d uid = filter (\<lambda>a. att_userId a = uid) (db_quizAttempts d)"

definition db_createQuizAttempt ::
  "string \<Rightarrow> timestamp \<Rightarrow> insertQuizAttempt \<Rightarrow> dbStorage
     \<Rightarrow> js_error + (quizAttempt \<times> dbStorage)" where
  "db_createQuizAttempt newId now ia d =
     (if ia_answers ia = JNull then Inl NotNullViolation
      else if newId \<in> set (map att_id (db_quizAttempts d)) then Inl UniqueViolation
      else if ia_userId ia \<notin> set (map u_id (db_users d)) then Inl ForeignKeyViolation
      else if ia_quizId ia \<notin> set (map quiz_id (db_quizzes d)) then Inl ForeignKeyViolation
      else
        (let row = \<lparr> att_id = newId, att_userId = ia_userId ia, att_quizId = ia_quizId ia,
                      att_answers = ia_answers ia, att_score = ia_score ia,
                      att_totalQuestions = ia_totalQuestions ia,
                      att_completedAt = Some now \<rparr>
         in Inr (row, d\<lparr> db_quizAttempts := db_quizAttempts d @ [row] \<rparr>)))"

section \<open>The storage interface\<close>

text \<open>
  The routes are written against \<open>IStorage\<close>; the exported \<open>storage\<close> object is an
  instance of one of its two implementations. The in-memory implementation never raises.
\<close>

datatype storage = MemStorage memStorage | DatabaseStorage dbStorage

definition lift_mem :: "'a \<times> memStorage \<Rightarrow> js_error + ('a \<times> storage)" where
  "lift_mem r = Inr (fst r, MemStorage (snd r))"

definition lift_db :: "js_error + ('a \<times> dbStorage) \<Rightarrow> js_error + ('a \<times> storage)" where
  "lift_db r = (case r of Inl e \<Rightarrow> Inl e | Inr (a, d) \<Rightarrow> Inr (a, DatabaseStorage d))"

fun getUser :: "storage \<Rightarrow> string \<Rightarrow> user option" where
  "getUser (MemStorage s) i = mem_getUser s i"
| "getUser (DatabaseStorage d) i = db_getUser d i"

fun getUserByUsername :: "storage \<Rightarrow> string \<Rightarrow> user option" where
  "getUserByUsername (MemStorage s) n = mem_getUserByUsername s n"
| "getUserByUsername (DatabaseStorage d) n = db_getUserByUsername d n"

fun getUserByEmail :: "storage \<Rightarrow> string \<Rightarrow> user option" where
  "getUserByEmail (MemStorage s) e = mem_getUserByEmail s e"
| "getUserByEmail (DatabaseStorage d) e = db_getUserByEmail d e"

fun createUser :: "string \<Rightarrow> timestamp \<Rightarrow> insertUser \<Rightarrow> storage \<Rightarrow> js_error + (user \<times> storage)" where
  "createUser newId now iu (MemStorage s) = lift_mem (mem_createUser newId now iu s)"
| "createUser newId now iu (DatabaseStorage d) = lift_db (db_createUser newId now iu d)"

fun getMaterial :: "storage \<Rightarrow> string \<Rightarrow> material option" where
  "getMaterial (MemStorage s) i = mem_getMaterial s i"
| "getMaterial (DatabaseStorage d) i = db_getMaterial d i"

fun createMaterial ::
  "string \<Rightarrow> timestamp \<Rightarrow> insertMaterial \<Rightarrow> storage \<Rightarrow> js_error + (material \<times> storage)" where
  "createMaterial newId now im (MemStorage s) = lift_mem (mem_createMaterial newId now im s)"
| "createMaterial newId now im (DatabaseStorage d) = lift_db (db_createMaterial newId now im d)"

fun deleteMaterial :: "string \<Rightarrow> storage \<Rightarrow> js_error + (bool \<times> storage)" where
  "deleteMaterial i (MemStorage s) = lift_mem (mem_deleteMaterial i s)"
| "deleteMaterial i (DatabaseStorage d) = lift_db (db_deleteMaterial i d)"

fun getConversation :: "storage \<Rightarrow> string \<Rightarrow> conversation option" where
  "getConversation (MemStorage s) i = mem_getConversation s i"
| "getConversation (DatabaseStorage d) i = db_getConversation d i"

fun deleteConversation :: "string \<Rightarrow> storage \<Rightarrow> js_error + (bool \<times> storage)" where
  "deleteConversation i (MemStorage s) = lift_mem (mem_deleteConversation i s)"
| "deleteConversation i (DatabaseStorage d) = lift_db (db_deleteConversation i d)"

fun getMessagesByConversation :: "storage \<Rightarrow> string \<Rightarrow> message list" where
  "getMessagesByConversation (MemStorage s) i = mem_getMessagesByConversation s i"
| "getMessagesByConversation (DatabaseStorage d) i = db_getMessagesByConversation d i"

fun getMindMap :: "storage \<Rightarrow> string \<Rightarrow> mindMap option" where
  "getMindMap (MemStorage s) i = mem_getMindMap s i"
| "getMindMap (DatabaseStorage d) i = db_getMindMap d i"

fun createMindMap ::
  "string \<Rightarrow> timestamp \<Rightarrow> insertMindMap \<Rightarrow> storage \<Rightarrow> js_error + (mindMap \<times> storage)" where
  "createMindMap newId now im (MemStorage s) = lift_mem (mem_createMindMap newId now im s)"
| "createMindMap newId now im (DatabaseStorage d) = lift_db (db_createMindMap newId now im d)"

fun updateMindMap ::
  "timestamp \<Rightarrow> string \<Rightarrow> partialMindMap \<Rightarrow> storage \<Rightarrow> js_error + (mindMap option \<times> storage)" where
  "updateMindMap now i p (MemStorage s) = lift_mem (mem_updateMindMap now i p s)"
| "updateMindMap now i p (DatabaseStorage d) = lift_db (db_updateMindMap now i p d)"

fun getQuiz :: "storage \<Rightarrow> string \<Rightarrow> quiz option" where
  "getQuiz (MemStorage s) i = mem_getQuiz s i"
| "getQuiz (DatabaseStorage d) i = db_getQuiz d i"

fun createQuiz :: "string \<Rightarrow> timestamp \<Rightarrow> insertQuiz \<Rightarrow> storage \<Rightarrow> js_error + (quiz \<times> storage)" where
  "createQuiz newId now iq (MemStorage s) = lift_mem (mem_createQuiz newId now iq s)"
| "createQuiz newId now iq (DatabaseStorage d) = lift_db (db_createQuiz newId now iq d)"

fun getQuizAttempt :: "storage \<Rightarrow> string \<Rightarrow> quizAttempt option" where
  "getQuizAttempt (MemStorage s) i = mem_getQuizAttempt s i"
| "getQuizAttempt (DatabaseStorage d) i = db_getQuizAttempt d i"

fun createQuizAttempt ::
  "string \<Rightarrow> timestamp \<Rightarrow> insertQuizAttempt \<Rightarrow> storage \<Rightarrow> js_error + (quizAttempt \<times> storage)" where
  "createQuizAttempt newId now ia (MemStorage s) = lift_mem (mem_createQuizAttempt newId now ia s)"
| "createQuizAttempt newId now ia (DatabaseStorage d) = lift_db (db_createQuizAttempt newId now ia d)"

section \<open>Routes\<close>

text \<open>
  A response is its status and its JSON body. \<open>ErrorJson\<close> carries a message written in
  the route, \<open>ErrorMessage\<close> the message of the exception the route caught, \<open>Unhandled\<close>
  an exception passed to \<open>next\<close>, which the framework answers with status 500.
\<close>

text \<open>
  What \<open>answers[key]\<close> yields on the object the body schema returns, an ordinary object
  whose own members are strings: \<open>undefined\<close>, a submitted answer, or a member that every
  object inherits (a function, or for \<open>__proto__\<close> the prototype itself).
\<close>

datatype js_value = Undefined | Str string | Inherited string

definition object_prototype_keys :: "string list" where
  "object_prototype_keys =
     [''constructor'', ''__defineGetter__'', ''__defineSetter__'', ''hasOwnProperty'',
      ''__lookupGetter__'', ''__lookupSetter__'', ''isPrototypeOf'', ''propertyIsEnumerable'',
      ''toString'', ''valueOf'', ''__proto__'', ''toLocaleString'']"

text \<open>One entry of the \<open>results\<close> array that the attempt route builds.\<close>

record answerResult =
  ar_questionId :: "json option"
  ar_userAnswer :: js_value
  ar_correctAnswer :: "json option"
  ar_isCorrect :: bool
  ar_explanation :: "json option"

record publicUser =
  pub_id :: string
  pub_username :: string
  pub_email :: string
  pub_plan :: string
  pub_language :: string
  pub_createdAt :: "timestamp option"
  pub_role :: "string option"

datatype token = JwtToken string

datatype body =
    ErrorJson string
  | ErrorMessage js_error
  | Unhandled js_error
  | SuccessJson
  | UserJson publicUser "token option"
  | MaterialJson material
  | MessagesJson "message list"
  | MindMapJson "mindMap option"
  | QuizJson quiz
  | AttemptJson quizAttempt "answerResult list"

type_synonym response = "nat \<times> body"

text \<open>The outcome of a schema's \<open>parse\<close> on the request body; \<open>Invalid\<close> raises.\<close>

datatype 'a parsed = Invalid | Valid 'a

text \<open>
  The routes below run after \<open>requireAuth\<close>, which has stored the identity of the
  requester in \<open>req.userId\<close>.
\<close>

subsection \<open>DELETE /api/materials/:id\<close>

definition delete_material_route :: "string option \<Rightarrow> string \<Rightarrow> storage \<Rightarrow> response \<times> storage" where
  "delete_material_route userId i st =
     (case getMaterial st i of
        None \<Rightarrow> ((404, ErrorJson ''Material not found''), st)
      | Some material \<Rightarrow>
          if Some (mat_userId material) \<noteq> userId
          then ((404, ErrorJson ''Material not found''), st)
          else (case deleteMaterial i st of
                  Inl e \<Rightarrow> ((500, ErrorJson ''Failed to delete material''), st)
                | Inr (b, st') \<Rightarrow> ((200, SuccessJson), st')))"

subsection \<open>GET /api/conversations/:id/messages\<close>

definition get_messages_route :: "string option \<Rightarrow> string \<Rightarrow> storage \<Rightarrow> response \<times> storage" where
  "get_messages_route userId i st =
     (case getConversation st i of
        None \<Rightarrow> ((404, ErrorJson ''Conversation not found''), st)
      | Some conversation \<Rightarrow>
          if Some (conv_userId conversation) \<noteq> userId
          then ((404, ErrorJson ''Conversation not found''), st)
          else ((200, MessagesJson (getMessagesByConversation st i)), st))"

subsection \<open>PUT /api/mindmaps/:id\<close>

text \<open>The body schema admits an optional \<open>title\<close> and an optional \<open>nodes\<close> of any value.\<close>

definition mindmap_updates :: "string option \<times> json option \<Rightarrow> partialMindMap" where
  "mindmap_updates b =
     \<lparr> pm_id = None, pm_userId = None, pm_title = fst b, pm_nodes = snd b,
       pm_materialIds = None, pm_createdAt = None, pm_updatedAt = None \<rparr>"

definition put_mindmap_route ::
  "timestamp \<Rightarrow> string option \<Rightarrow> string \<Rightarrow> (string option \<times> json option) parsed \<Rightarrow> storage
     \<Rightarrow> response \<times> storage" where
  "put_mindmap_route now userId i parsed_body st =
     (case parsed_body of
        Invalid \<Rightarrow> ((400, ErrorMessage ZodError), st)
      | Valid b \<Rightarrow>
          (case getMindMap st i of
             None \<Rightarrow> ((404, ErrorJson ''Mind map not found''), st)
           | Some m \<Rightarrow>
               if Some (mm_userId m) \<noteq> userId
               then ((404, ErrorJson ''Mind map not found''), st)
               else (case updateMindMap now i (mindmap_updates b) st of
                       Inl e \<Rightarrow> ((400, ErrorMessage e), st)
                     | Inr (updatedMindMap, st') \<Rightarrow> ((200, MindMapJson updatedMindMap), st'))))"

subsection \<open>POST /api/quizzes/:id/attempt\<close>

text \<open>
  The submitted \<open>answers\<close> map question ids to the selected answers; \<open>answers[q.id]\<close>
  reads an own member first and an inherited one otherwise.
\<close>

definition read_answer :: "(string \<rightharpoonup> string) \<Rightarrow> string \<Rightarrow> js_value" where
  "read_answer answers key =
     (case answers key of
        Some a \<Rightarrow> Str a
      | None \<Rightarrow> if key \<in> set object_prototype_keys then Inherited key else Undefined)"

text \<open>
  \<open>userAnswer === q.correctAnswer\<close>: two strings that are equal, or \<open>undefined\<close> on
  both sides.
\<close>

definition strict_equal :: "js_value \<Rightarrow> json option \<Rightarrow> bool" where
  "strict_equal a c =
     (case a of Undefined \<Rightarrow> c = None | Str x \<Rightarrow> c = Some (JStr x) | Inherited k \<Rightarrow> False)"

text \<open>
  The callback of \<open>questions.map\<close> on one element \<open>q\<close> of the stored array. Reading
  \<open>q.id\<close> raises when \<open>q\<close> is \<open>null\<close>.
\<close>

definition grade ::
  "(int \<Rightarrow> string) \<Rightarrow> (string \<rightharpoonup> string) \<Rightarrow> json \<Rightarrow> js_error + answerResult" where
  "grade num answers q =
     (if q = JNull then Inl TypeError
      else
        (let userAnswer = read_answer answers (property_key num (member q ''id''));
             isCorrect = strict_equal userAnswer (member q ''correctAnswer'')
         in Inr \<lparr> ar_questionId = member q ''id'', ar_userAnswer = userAnswer,
                  ar_correctAnswer = member q ''correctAnswer'', ar_isCorrect = isCorrect,
                  ar_explanation = member q ''explanation'' \<rparr>))"

text \<open>
  \<open>questions.map\<close> with the counter \<open>correct\<close> that the callback increments as it
  goes; an exception in the callback ends the loop.
\<close>

fun grade_all ::
  "(int \<Rightarrow> string) \<Rightarrow> (string \<rightharpoonup> string) \<Rightarrow> json list \<Rightarrow> nat
     \<Rightarrow> js_error + (answerResult list \<times> nat)" where
  "grade_all num answers [] correct = Inr ([], correct)"
| "grade_all num answers (q # qs) correct =
     (case grade num answers q of
        Inl e \<Rightarrow> Inl e
      | Inr r \<Rightarrow>
          (case grade_all num answers qs (if ar_isCorrect r then correct + 1 else correct) of
             Inl e \<Rightarrow> Inl e
           | Inr (rs, n) \<Rightarrow> Inr (r # rs, n)))"

text \<open>
  The results as JSON, which is how the database keeps them and how a response carries
  them, those of the in-memory store included: \<open>JSON.stringify\<close> leaves out a member that
  is \<open>undefined\<close> or a function, and writes the prototype as the empty object.
\<close>

definition json_member :: "string \<Rightarrow> json option \<Rightarrow> (string \<times> json) list" where
  "json_member name v = (case v of None \<Rightarrow> [] | Some j \<Rightarrow> [(name, j)])"

definition answer_json :: "js_value \<Rightarrow> json option" where
  "answer_json a =
     (case a of
        Undefined \<Rightarrow> None
      | Str x \<Rightarrow> Some (JStr x)
      | Inherited k \<Rightarrow> if k = ''__proto__'' then Some (JObj []) else None)"

definition result_json :: "answerResult \<Rightarrow> json" where
  "result_json r =
     JObj (json_member ''questionId'' (ar_questionId r)
           @ json_member ''userAnswer'' (answer_json (ar_userAnswer r))
           @ json_member ''correctAnswer'' (ar_correctAnswer r)
           @ [(''isCorrect'', JBool (ar_isCorrect r))]
           @ json_member ''explanation'' (ar_explanation r))"

text \<open>
  \<open>quiz.questions as any[]\<close> is a cast: a stored value that is not an array has no
  \<open>map\<close>, and the call raises. Every exception ends in the \<open>catch\<close> clause.
\<close>

definition attempt_route ::
  "(int \<Rightarrow> string) \<Rightarrow> string \<Rightarrow> timestamp \<Rightarrow> string option \<Rightarrow> string
     \<Rightarrow> (string \<rightharpoonup> string) parsed \<Rightarrow> storage \<Rightarrow> response \<times> storage" where
  "attempt_route num newId now userId i parsed_body st =
     (if not_str userId then ((401, ErrorJson ''User ID missing''), st)
      else
        (case parsed_body of
           Invalid \<Rightarrow> ((400, ErrorMessage ZodError), st)
         | Valid answers \<Rightarrow>
             (case getQuiz st i of
                None \<Rightarrow> ((404, ErrorJson ''Quiz not found''), st)
              | Some quiz \<Rightarrow>
                  (case quiz_questions quiz of
                     JArr questions \<Rightarrow>
                       (case grade_all num answers questions 0 of
                          Inl e \<Rightarrow> ((400, ErrorMessage e), st)
                        | Inr (results, correct) \<Rightarrow>
                            (case createQuizAttempt newId now
                                    \<lparr> ia_quizId = i, ia_answers = JArr (map result_json results),
                                      ia_score = correct,
                                      ia_totalQuestions = length questions,
                                      ia_userId = the userId \<rparr> st of
                               Inl e \<Rightarrow> ((400, ErrorMessage e), st)
                             | Inr (attempt, st') \<Rightarrow>
                                 ((200, AttemptJson attempt results), st')))
                   | _ \<Rightarrow> ((400, ErrorMessage TypeError), st)))))"

section \<open>The AI gateway client\<close>

text \<open>
  What \<open>fetch\<close> returns for the request the client sends: the HTTP status, the body as
  text, and the body as parsed by \<open>response.json()\<close>. Of a completion only the content
  of each choice's message is read, \<open>None\<close> when it is \<open>null\<close>.
\<close>

record completion =
  choices :: "string option list"

record fetch_response =
  resp_status :: nat
  resp_text :: string
  resp_json :: "completion option"

definition response_ok :: "fetch_response \<Rightarrow> bool" where
  "response_ok r = (200 \<le> resp_status r \<and> resp_status r \<le> 299)"

text \<open>
  \<open>createOpenRouterClient\<close> reads the key from the environment and raises without one.
\<close>

definition createOpenRouterClient :: "string option \<Rightarrow> js_error + string" where
  "createOpenRouterClient env_key =
     (if not_str env_key then Inl MissingApiKey else Inr (the env_key))"

text \<open>
  \<open>chat\<close>: on a response that is not ok it raises
  \<open>Error(`OpenRouter API error: ${response.status} - ${error}`)\<close>, kept here as
  \<open>GatewayError status text\<close>; otherwise it returns the parsed body.
\<close>

definition chat :: "fetch_response \<Rightarrow> js_error + completion" where
  "chat response =
     (if \<not> response_ok response
      then Inl (GatewayError (resp_status response) (resp_text response))
      else (case resp_json response of None \<Rightarrow> Inl SyntaxError | Some c \<Rightarrow> Inr c))"

text \<open>\<open>response.choices[0].message.content\<close>; reading it off an empty list raises.\<close>

definition first_choice :: "completion \<Rightarrow> js_error + string option" where
  "first_choice c = (case choices c of [] \<Rightarrow> Inl TypeError | x # _ \<Rightarrow> Inr x)"

text \<open>The client call of a route, from the environment's key to the first choice.\<close>

definition ask_gateway :: "string option \<Rightarrow> fetch_response \<Rightarrow> js_error + string option" where
  "ask_gateway env_key upstream =
     (case createOpenRouterClient env_key of
        Inl e \<Rightarrow> Inl e
      | Inr k \<Rightarrow>
          (case chat upstream of
             Inl e \<Rightarrow> Inl e
           | Inr c \<Rightarrow> first_choice c))"

section \<open>Routes that create materials\<close>

subsection \<open>POST /api/materials/upload\<close>

text \<open>
  The uploaded file as the upload middleware describes it, with the text that
  \<open>fs.readFileSync(path, 'utf8')\<close> returns for it.
\<close>

record upload_file =
  originalname :: string
  mimetype :: string
  size :: nat
  utf8 :: string

definition startsWith :: "string \<Rightarrow> string \<Rightarrow> bool" where
  "startsWith s p = prefix p s"

text \<open>The dispatch on the content type; it yields the type tag and the content.\<close>

definition extract_content ::
  "string option \<Rightarrow> fetch_response \<Rightarrow> upload_file \<Rightarrow> js_error + (string \<times> string)" where
  "extract_content env_key upstream f =
     (if startsWith (mimetype f) ''text/'' then Inr (''text'', utf8 f)
      else if mimetype f = ''application/pdf'' then Inr (''pdf'', '''')
      else if startsWith (mimetype f) ''image/'' then
        (case ask_gateway env_key upstream of
           Inl e \<Rightarrow> Inl e
         | Inr c \<Rightarrow> Inr (''image'', or_default c ''''))
      else Inr (''file'', ''''))"

definition upload_route ::
  "string \<Rightarrow> timestamp \<Rightarrow> string option \<Rightarrow> fetch_response \<Rightarrow> string option
     \<Rightarrow> upload_file option \<Rightarrow> storage \<Rightarrow> response \<times> storage" where
  "upload_route newId now env_key upstream userId file st =
     (if not_str userId then ((401, ErrorJson ''User ID missing''), st)
      else
        (case file of
           None \<Rightarrow> ((400, ErrorJson ''No file uploaded''), st)
         | Some f \<Rightarrow>
             (case extract_content env_key upstream f of
                Inl e \<Rightarrow> ((500, ErrorMessage e), st)
              | Inr (type, content) \<Rightarrow>
                  (let materialData =
                         \<lparr> im_filename = originalname f, im_type = type,
                           im_content = Some content,
                           im_metadata = Some (JObj [(''size'', JNum (int (size f))),
                                                     (''mimetype'', JStr (mimetype f))]),
                           im_userId = the userId \<rparr>
                   in case createMaterial newId now materialData st of
                        Inl e \<Rightarrow> ((500, ErrorMessage e), st)
                      | Inr (material, st') \<Rightarrow> ((200, MaterialJson material), st')))))"

subsection \<open>POST /api/materials/youtube\<close>

text \<open>
  The regular expression \<open>(?:youtube\.com\/watch\?v=|youtu\.be\/)([^&\n?#]+)\<close>: the
  leftmost place where one of the two prefixes is followed by at least one character
  other than \<open>&\<close>, newline, \<open>?\<close> and \<open>#\<close>; the group is the longest such run.
\<close>

definition videoId_char :: "char \<Rightarrow> bool" where
  "videoId_char c = (c \<noteq> CHR ''&'' \<and> c \<noteq> CHR 0x0A \<and> c \<noteq> CHR ''?'' \<and> c \<noteq> CHR ''#'')"

fun match_videoId :: "string \<Rightarrow> string option" where
  "match_videoId [] = None"
| "match_videoId (c # cs) =
     (let s = c # cs;
          long = takeWhile videoId_char (drop 20 s);
          short = takeWhile videoId_char (drop 9 s)
      in if prefix ''youtube.com/watch?v='' s \<and> long \<noteq> [] then Some long
         else if prefix ''youtu.be/'' s \<and> short \<noteq> [] then Some short
         else match_videoId cs)"

definition youtube_route ::
  "string \<Rightarrow> timestamp \<Rightarrow> string option \<Rightarrow> string parsed \<Rightarrow> storage \<Rightarrow> response \<times> storage" where
  "youtube_route newId now userId parsed_body st =
     (if not_str userId then ((401, ErrorJson ''User ID missing''), st)
      else
        (case parsed_body of
           Invalid \<Rightarrow> ((400, ErrorMessage ZodError), st)
         | Valid url \<Rightarrow>
             (case match_videoId url of
                None \<Rightarrow> ((400, ErrorJson ''Invalid YouTube URL''), st)
              | Some videoId \<Rightarrow>
                  (let content = ''YouTube video: '' @ url @ [CHR 0x0A] @ ''Video ID: '' @ videoId
                         @ [CHR 0x0A] @ ''Transcript extraction would be implemented here.'';
                       materialData =
                         \<lparr> im_filename = ''YouTube Video - '' @ videoId, im_type = ''youtube'',
                           im_content = Some content,
                           im_metadata = Some (JObj [(''url'', JStr url),
                                                     (''videoId'', JStr videoId)]),
                           im_userId = the userId \<rparr>
                   in case createMaterial newId now materialData st of
                        Inl e \<Rightarrow> ((400, ErrorMessage e), st)
                      | Inr (material, st') \<Rightarrow> ((200, MaterialJson material), st')))))"

section \<open>Generation routes\<close>

text \<open>
  The validated body of a generation request. The materials named by \<open>materialIds\<close> are
  read to build the prompt; the prompt goes to the gateway and takes no other part in the
  response. \<open>JSON.parse\<close> is the runtime's: \<open>parse_json\<close> stands for it, \<open>None\<close> for
  a text that does not parse.
\<close>

text \<open>\<open>quizData.questions || []\<close>; reading \<open>questions\<close> off \<open>null\<close> raises.\<close>

definition questions_of :: "json \<Rightarrow> js_error + json" where
  "questions_of quizData =
     (if quizData = JNull then Inl TypeError
      else (case member quizData ''questions'' of
              None \<Rightarrow> Inr (JArr [])
            | Some v \<Rightarrow> Inr (if falsy v then JArr [] else v)))"

record generate_quiz_body =
  gq_materialIds :: "string list"
  gq_topic :: string
  gq_difficulty :: string
  gq_numQuestions :: nat

definition generate_quiz_route ::
  "string \<Rightarrow> timestamp \<Rightarrow> string option \<Rightarrow> fetch_response \<Rightarrow> (string \<Rightarrow> json option)
     \<Rightarrow> string option \<Rightarrow> generate_quiz_body parsed \<Rightarrow> storage \<Rightarrow> response \<times> storage" where
  "generate_quiz_route newId now env_key upstream parse_json userId parsed_body st =
     (if not_str userId then ((401, ErrorJson ''User ID missing''), st)
      else
        (case parsed_body of
           Invalid \<Rightarrow> ((400, ErrorMessage ZodError), st)
         | Valid b \<Rightarrow>
             (case ask_gateway env_key upstream of
                Inl e \<Rightarrow> ((400, ErrorMessage e), st)
              | Inr c \<Rightarrow>
                  (case parse_json (or_default c ''{}'') of
                     None \<Rightarrow> ((400, ErrorMessage SyntaxError), st)
                   | Some quizData \<Rightarrow>
                       (case questions_of quizData of
                          Inl e \<Rightarrow> ((400, ErrorMessage e), st)
                        | Inr questions \<Rightarrow>
                            (case createQuiz newId now
                                    \<lparr> iq_title = gq_topic b @ '' - Quiz'',
                                      iq_questions = questions,
                                      iq_materialIds = Some (JArr (map JStr (gq_materialIds b))),
                                      iq_difficulty = Present (gq_difficulty b),
                                      iq_userId = the userId \<rparr> st of
                               Inl e \<Rightarrow> ((400, ErrorMessage e), st)
                             | Inr (quiz, st') \<Rightarrow> ((200, QuizJson quiz), st')))))))"

record generate_mindmap_body =
  gm_materialIds :: "string list"
  gm_topic :: string

definition generate_mindmap_route ::
  "string \<Rightarrow> timestamp \<Rightarrow> string option \<Rightarrow> fetch_response \<Rightarrow> (string \<Rightarrow> json option)
     \<Rightarrow> string option \<Rightarrow> generate_mindmap_body parsed \<Rightarrow> storage \<Rightarrow> response \<times> storage" where
  "generate_mindmap_route newId now env_key upstream parse_json userId parsed_body st =
     (if not_str userId then ((401, ErrorJson ''User ID missing''), st)
      else
        (case parsed_body of
           Invalid \<Rightarrow> ((400, ErrorMessage ZodError), st)
         | Valid b \<Rightarrow>
             (case ask_gateway env_key upstream of
                Inl e \<Rightarrow> ((400, ErrorMessage e), st)
              | Inr c \<Rightarrow>
                  (case parse_json (or_default c ''{}'') of
                     None \<Rightarrow> ((400, ErrorMessage SyntaxError), st)
                   | Some mindMapStructure \<Rightarrow>
                       (case createMindMap newId now
                               \<lparr> imm_title = gm_topic b @ '' - Mind Map'',
                                 imm_nodes = mindMapStructure,
                                 imm_materialIds = Some (JArr (map JStr (gm_materialIds b))),
                                 imm_userId = the userId \<rparr> st of
                          Inl e \<Rightarrow> ((400, ErrorMessage e), st)
                        | Inr (mindMap, st') \<Rightarrow> ((200, MindMapJson (Some mindMap)), st'))))))"

text \<open>
  The serverless function \<open>api/quizzes/generate\<close> makes the same gateway call without
  touching the storage; only its status is modelled. \<open>topic\<close> is \<open>None\<close> when the body
  has none.
\<close>

definition api_quizzes_generate_status ::
  "string \<Rightarrow> string option \<Rightarrow> string option \<Rightarrow> fetch_response \<Rightarrow> (string \<Rightarrow> json option)
     \<Rightarrow> nat" where
  "api_quizzes_generate_status method topic env_key upstream parse_json =
     (if method \<noteq> ''POST'' then 405
      else if not_str topic then 400
      else
        (case ask_gateway env_key upstream of
           Inl e \<Rightarrow> 500
         | Inr c \<Rightarrow>
             (case parse_json (or_default c ''{}'') of
                None \<Rightarrow> 500
              | Some quizData \<Rightarrow>
                  (case questions_of quizData of Inl e \<Rightarrow> 500 | Inr questions \<Rightarrow> 200))))"

section \<open>Authentication\<close>

type_synonym byte = "8 word"

text \<open>\<open>buf.toString("hex")\<close> and \<open>Buffer.from(s, "hex")\<close>; decoding stops at the first
  pair that is not two hexadecimal digits.\<close>

definition hex_digit :: "nat \<Rightarrow> char" where
  "hex_digit n = ''0123456789abcdef'' ! n"

definition hex_value :: "char \<Rightarrow> nat option" where
  "hex_value c =
     (let n = (of_char c :: nat)
      in if 48 \<le> n \<and> n \<le> 57 then Some (n - 48)
         else if 97 \<le> n \<and> n \<le> 102 then Some (n - 87)
         else if 65 \<le> n \<and> n \<le> 70 then Some (n - 55)
         else None)"

definition to_hex :: "byte list \<Rightarrow> string" where
  "to_hex bs = concat (map (\<lambda>b. [hex_digit (unat b div 16), hex_digit (unat b mod 16)]) bs)"


text \<open>\<open>stored.split(".")\<close>.\<close>

fun split_dot :: "string \<Rightarrow> string list" where
  "split_dot [] = [[]]"
| "split_dot (c # cs) =
     (if c = CHR ''.'' then [] # split_dot cs
      else (case split_dot cs of [] \<Rightarrow> [[c]] | p # ps \<Rightarrow> (c # p) # ps))"

text \<open>
  \<open>scrypt\<close> is the platform's: \<open>kdf password salt keylen\<close> stands for it. The sixteen
  random bytes of the salt are an argument.
\<close>

type_synonym kdf = "string \<Rightarrow> string \<Rightarrow> nat \<Rightarrow> byte list"

definition hashPassword :: "kdf \<Rightarrow> byte list \<Rightarrow> string \<Rightarrow> string" where
  "hashPassword scrypt random password =
     (let salt = to_hex random;
          buf = scrypt password salt 64
      in to_hex buf @ ''.'' @ salt)"


definition generateToken :: "string \<Rightarrow> token" where
  "generateToken userId = JwtToken userId"

definition without_password :: "user \<Rightarrow> publicUser" where
  "without_password u =
     \<lparr> pub_id = u_id u, pub_username = u_username u, pub_email = u_email u,
       pub_plan = u_plan u, pub_language = u_language u, pub_createdAt = u_createdAt u,
       pub_role = u_role u \<rparr>"

subsection \<open>POST /api/register\<close>

text \<open>
  The body is spread into the insert with its password replaced by the hash. Both modes
  answer 201 with the user without its password; the token mode adds a token.
\<close>

definition register_route ::
  "kdf \<Rightarrow> bool \<Rightarrow> string \<Rightarrow> timestamp \<Rightarrow> byte list \<Rightarrow> insertUser \<Rightarrow> storage \<Rightarrow> response \<times> storage" where
  "register_route scrypt USE_JWT_AUTH newId now random body st =
     (case getUserByUsername st (iu_username body) of
        Some existingUser \<Rightarrow> ((400, ErrorJson ''Username already exists''), st)
      | None \<Rightarrow>
          (case getUserByEmail st (iu_email body) of
             Some existingEmail \<Rightarrow> ((400, ErrorJson ''Email already exists''), st)
           | None \<Rightarrow>
               (case createUser newId now
                       (body\<lparr> iu_password := hashPassword scrypt random (iu_password body) \<rparr>) st of
                  Inl e \<Rightarrow> ((500, Unhandled e), st)
                | Inr (user, st') \<Rightarrow>
                    ((201, UserJson (without_password user)
                             (if USE_JWT_AUTH then Some (generateToken (u_id user)) else None)),
                     st'))))"

subsection \<open>POST /api/login\<close>


section \<open>Concrete stores and requests\<close>

text \<open>
  Two registered users, \<open>u1\<close> and \<open>u2\<close>, and a quiz of two questions that belongs to
  \<open>u1\<close>, in each implementation of the storage.
\<close>

definition user1 :: user where
  "user1 = \<lparr> u_id = ''u1'', u_username = ''alice'', u_password = ''00.00'',
             u_email = ''alice@example.org'', u_plan = ''free'', u_language = ''en'',
             u_createdAt = Some 1, u_role = None \<rparr>"

definition user2 :: user where
  "user2 = \<lparr> u_id = ''u2'', u_username = ''bob'', u_password = ''00.00'',
             u_email = ''bob@example.org'', u_plan = ''free'', u_language = ''en'',
             u_createdAt = Some 2, u_role = None \<rparr>"

definition question1 :: json where
  "question1 = JObj [(''id'', JStr ''1''), (''type'', JStr ''multiple_choice''),
                     (''question'', JStr ''2 + 2?''),
                     (''options'', JArr [JStr ''A) 4'', JStr ''B) 5'']),
                     (''correctAnswer'', JStr ''A''), (''explanation'', JStr ''sum'')]"

definition question2 :: json where
  "question2 = JObj [(''id'', JStr ''2''), (''type'', JStr ''multiple_choice''),
                     (''question'', JStr ''3 * 3?''),
                     (''options'', JArr [JStr ''A) 6'', JStr ''B) 9'']),
                     (''correctAnswer'', JStr ''B''), (''explanation'', JStr ''product'')]"

definition quiz1 :: quiz where
  "quiz1 = \<lparr> quiz_id = ''q1'', quiz_userId = ''u1'', quiz_title = ''Arithmetic - Quiz'',
             quiz_questions = JArr [question1, question2], quiz_materialIds = None,
             quiz_difficulty = Some ''easy'', quiz_createdAt = Some 3 \<rparr>"





text \<open>How a number prints, for the integers that print without an exponent.\<close>

fun digits :: "nat \<Rightarrow> string" where
  "digits n = (if n < 10 then [''0123456789'' ! n] else digits (n div 10) @ [''0123456789'' ! (n mod 10)])"

definition decimal :: "int \<Rightarrow> string" where
  "decimal n = (if n < 0 then ''-'' @ digits (nat (- n)) else digits (nat n))"


definition mem1 :: memStorage where
  "mem1 = newMemStorage\<lparr> users := [(''u1'', user1), (''u2'', user2)],
                          quizzes := [(''q1'', quiz1)] \<rparr>"

definition db1 :: dbStorage where
  "db1 = newDatabaseStorage\<lparr> db_users := [user1, user2], db_quizzes := [quiz1] \<rparr>"


text \<open>Uploaded files, and a gateway that is down.\<close>

definition video_file :: upload_file where
  "video_file = \<lparr> originalname = ''lecture.mp4'', mimetype = ''video/mp4'', size = 1024,
                  utf8 = '''' \<rparr>"

definition pdf_file :: upload_file where
  "pdf_file = \<lparr> originalname = ''paper.pdf'', mimetype = ''application/pdf'', size = 2048,
                utf8 = '''' \<rparr>"

definition notes_file :: upload_file where
  "notes_file = \<lparr> originalname = ''notes.txt'', mimetype = ''text/plain'', size = 39,
                  utf8 = ''photosynthesis converts light to energy'' \<rparr>"

definition gateway_down :: fetch_response where
  "gateway_down = \<lparr> resp_status = 503, resp_text = ''Service Unavailable'', resp_json = None \<rparr>"

definition valid_quiz_request :: generate_quiz_body where
  "valid_quiz_request = \<lparr> gq_materialIds = [], gq_topic = ''Arithmetic'',
                          gq_difficulty = ''medium'', gq_numQuestions = 10 \<rparr>"

definition valid_mindmap_request :: generate_mindmap_body where
  "valid_mindmap_request = \<lparr> gm_materialIds = [], gm_topic = ''Arithmetic'' \<rparr>"

text \<open>Two conversations with their messages.\<close>

definition conversation1 :: conversation where
  "conversation1 = \<lparr> conv_id = ''c1'', conv_userId = ''u1'', conv_title = Some ''Biology'',
                     conv_createdAt = Some 4 \<rparr>"

definition conversation2 :: conversation where
  "conversation2 = \<lparr> conv_id = ''c2'', conv_userId = ''u2'', conv_title = None,
                     conv_createdAt = Some 5 \<rparr>"

definition message1 :: message where
  "message1 = \<lparr> msg_id = ''g1'', msg_conversationId = ''c1'', msg_role = ''user'',
                msg_content = ''What is a cell?'', msg_audioUrl = None, msg_materialIds = None,
                msg_timestamp = Some 6 \<rparr>"

definition message2 :: message where
  "message2 = \<lparr> msg_id = ''g2'', msg_conversationId = ''c2'', msg_role = ''user'',
                msg_content = ''Hello'', msg_audioUrl = None, msg_materialIds = None,
                msg_timestamp = Some 7 \<rparr>"

definition message3 :: message where
  "message3 = \<lparr> msg_id = ''g3'', msg_conversationId = ''c1'', msg_role = ''assistant'',
                msg_content = ''The unit of life.'', msg_audioUrl = None, msg_materialIds = None,
                msg_timestamp = Some 8 \<rparr>"

definition mem2 :: memStorage where
  "mem2 = mem1\<lparr> conversations := [(''c1'', conversation1), (''c2'', conversation2)],
                 messages := [(''g1'', message1), (''g2'', message2), (''g3'', message3)] \<rparr>"

definition db2 :: dbStorage where
  "db2 = db1\<lparr> db_conversations := [conversation1, conversation2],
               db_messages := [message1, message2, message3] \<rparr>"

text \<open>Two mind maps, and the update that carries no field.\<close>

definition mindMap1 :: mindMap where
  "mindMap1 = \<lparr> mm_id = ''mm1'', mm_userId = ''u1'', mm_title = ''Cells'',
                mm_nodes = JObj [(''nodes'', JArr []), (''connections'', JArr [])],
                mm_materialIds = None, mm_createdAt = Some 4, mm_updatedAt = Some 4 \<rparr>"

definition mindMap2 :: mindMap where
  "mindMap2 = \<lparr> mm_id = ''mm2'', mm_userId = ''u2'', mm_title = ''Stars'',
                mm_nodes = JObj [], mm_materialIds = Some (JArr [JStr ''m7'']),
                mm_createdAt = Some 5, mm_updatedAt = Some 6 \<rparr>"

definition mem3 :: memStorage where
  "mem3 = mem1\<lparr> mindMaps := [(''mm1'', mindMap1), (''mm2'', mindMap2)] \<rparr>"


definition no_updates :: partialMindMap where
  "no_updates = \<lparr> pm_id = None, pm_userId = None, pm_title = None, pm_nodes = None,
                  pm_materialIds = None, pm_createdAt = None, pm_updatedAt = None \<rparr>"





text \<open>The users that a store holds, whichever the implementation.\<close>

definition stored_users :: "storage \<Rightarrow> user list" where
  "stored_users st =
     (case st of MemStorage s \<Rightarrow> map snd (users s) | DatabaseStorage d \<Rightarrow> db_users d)"

text \<open>The database takes a user row when the generated id is new.\<close>

definition accepts_user :: "storage \<Rightarrow> string \<Rightarrow> bool" where
  "accepts_user st newId =
     (case st of
        MemStorage s \<Rightarrow> True
      | DatabaseStorage d \<Rightarrow> newId \<notin> set (map u_id (db_users d)))"

text \<open>
  A stand-in for the key derivation, for running the routes on concrete requests: it
  returns \<open>keylen\<close> bytes that depend on the password and the salt.
\<close>

definition sample_kdf :: kdf where
  "sample_kdf password salt keylen = replicate keylen (word_of_nat (length password + length salt))"

definition sample_salt :: "byte list" where
  "sample_salt = replicate 16 7"

definition carol :: insertUser where
  "carol = \<lparr> iu_username = ''carol'', iu_password = ''correct horse'',
             iu_email = ''carol@example.org'', iu_language = None, iu_plan = None,
             iu_role = None \<rparr>"

definition dave :: user where
  "dave = \<lparr> u_id = ''u4'', u_username = ''dave'',
            u_password = hashPassword sample_kdf sample_salt ''battery staple'',
            u_email = ''dave@example.org'', u_plan = ''free'', u_language = ''en'',
            u_createdAt = Some 3, u_role = None \<rparr>"

definition db4 :: dbStorage where
  "db4 = newDatabaseStorage\<lparr> db_users := [dave] \<rparr>"

section \<open>The two implementations side by side\<close>

text \<open>
  A call through the storage interface, with the identifier and the time that a creating
  call draws, and what the caller gets back: the value the promise resolves to, or the
  exception it is rejected with.
\<close>

datatype op =
    GetUser string
  | GetUserByUsername string
  | GetUserByEmail string
  | CreateUser string timestamp insertUser
  | UpdateUser string partialUser
  | GetMaterial string
  | GetMaterialsByUser string
  | CreateMaterial string timestamp insertMaterial
  | DeleteMaterial string
  | GetConversation string
  | GetConversationsByUser string
  | CreateConversation string timestamp insertConversation
  | DeleteConversation string
  | GetMessage string
  | GetMessagesByConversation string
  | CreateMessage string timestamp insertMessage
  | GetMindMap string
  | GetMindMapsByUser string
  | CreateMindMap string timestamp insertMindMap
  | UpdateMindMap timestamp string partialMindMap
  | DeleteMindMap string
  | GetQuiz string
  | GetQuizzesByUser string
  | CreateQuiz string timestamp insertQuiz
  | DeleteQuiz string
  | GetQuizAttempt string
  | GetQuizAttemptsByUser string
  | CreateQuizAttempt string timestamp insertQuizAttempt

datatype result =
    UserResult "user option"
  | MaterialResult "material option"
  | MaterialList "material list"
  | ConversationResult "conversation option"
  | ConversationList "conversation list"
  | MessageResult "message option"
  | MessageList "message list"
  | MindMapResult "mindMap option"
  | MindMapList "mindMap list"
  | QuizResult "quiz option"
  | QuizList "quiz list"
  | AttemptResult "quizAttempt option"
  | AttemptList "quizAttempt list"
  | Deleted bool
  | Raises js_error

definition created :: "('r \<Rightarrow> result) \<Rightarrow> ('r \<times> 's) \<Rightarrow> result \<times> 's" where
  "created wrap r = (wrap (fst r), snd r)"

fun mem_step :: "op \<Rightarrow> memStorage \<Rightarrow> result \<times> memStorage" where
  "mem_step (GetUser i) s = (UserResult (mem_getUser s i), s)"
| "mem_step (GetUserByUsername n) s = (UserResult (mem_getUserByUsername s n), s)"
| "mem_step (GetUserByEmail e) s = (UserResult (mem_getUserByEmail s e), s)"
| "mem_step (CreateUser newId now iu) s = created (\<lambda>u. UserResult (Some u)) (mem_createUser newId now iu s)"
| "mem_step (UpdateUser i p) s = created UserResult (mem_updateUser i p s)"
| "mem_step (GetMaterial i) s = (MaterialResult (mem_getMaterial s i), s)"
| "mem_step (GetMaterialsByUser u) s = (MaterialList (mem_getMaterialsByUser s u), s)"
| "mem_step (CreateMaterial newId now im) s =
     created (\<lambda>r. MaterialResult (Some r)) (mem_createMaterial newId now im s)"
| "mem_step (DeleteMaterial i) s = created Deleted (mem_deleteMaterial i s)"
| "mem_step (GetConversation i) s = (ConversationResult (mem_getConversation s i), s)"
| "mem_step (GetConversationsByUser u) s = (ConversationList (mem_getConversationsByUser s u), s)"
| "mem_step (CreateConversation newId now ic) s =
     created (\<lambda>r. ConversationResult (Some r)) (mem_createConversation newId now ic s)"
| "mem_step (DeleteConversation i) s = created Deleted (mem_deleteConversation i s)"
| "mem_step (GetMessage i) s = (MessageResult (mem_getMessage s i), s)"
| "mem_step (GetMessagesByConversation c) s = (MessageList (mem_getMessagesByConversation s c), s)"
| "mem_step (CreateMessage newId now im) s =
     created (\<lambda>r. MessageResult (Some r)) (mem_createMessage newId now im s)"
| "mem_step (GetMindMap i) s = (MindMapResult (mem_getMindMap s i), s)"
| "mem_step (GetMindMapsByUser u) s = (MindMapList (mem_getMindMapsByUser s u), s)"
| "mem_step (CreateMindMap newId now im) s =
     created (\<lambda>r. MindMapResult (Some r)) (mem_createMindMap newId now im s)"
| "mem_step (UpdateMindMap now i p) s = created MindMapResult (mem_updateMindMap now i p s)"
| "mem_step (DeleteMindMap i) s = created Deleted (mem_deleteMindMap i s)"
| "mem_step (GetQuiz i) s = (QuizResult (mem_getQuiz s i), s)"
| "mem_step (GetQuizzesByUser u) s = (QuizList (mem_getQuizzesByUser s u), s)"
| "mem_step (CreateQuiz newId now iq) s =
     created (\<lambda>r. QuizResult (Some r)) (mem_createQuiz newId now iq s)"
| "mem_step (DeleteQuiz i) s = created Deleted (mem_deleteQuiz i s)"
| "mem_step (GetQuizAttempt i) s = (AttemptResult (mem_getQuizAttempt s i), s)"
| "mem_step (GetQuizAttemptsByUser u) s = (AttemptList (mem_getQuizAttemptsByUser s u), s)"
| "mem_step (CreateQuizAttempt newId now ia) s =
     created (\<lambda>r. AttemptResult (Some r)) (mem_createQuizAttempt newId now ia s)"

text \<open>A statement that raises leaves the database as it was.\<close>

definition returned :: "('r \<Rightarrow> result) \<Rightarrow> dbStorage \<Rightarrow> js_error + ('r \<times> dbStorage) \<Rightarrow> result \<times> dbStorage" where
  "returned wrap d r = (case r of Inl e \<Rightarrow> (Raises e, d) | Inr (a, d') \<Rightarrow> (wrap a, d'))"

fun db_step :: "op \<Rightarrow> dbStorage \<Rightarrow> result \<times> dbStorage" where
  "db_step (GetUser i) d = (UserResult (db_getUser d i), d)"
| "db_step (GetUserByUsername n) d = (UserResult (db_getUserByUsername d n), d)"
| "db_step (GetUserByEmail e) d = (UserResult (db_getUserByEmail d e), d)"
| "db_step (CreateUser newId now iu) d =
     returned (\<lambda>u. UserResult (Some u)) d (db_createUser newId now iu d)"
| "db_step (UpdateUser i p) d = returned UserResult d (db_updateUser i p d)"
| "db_step (GetMaterial i) d = (MaterialResult (db_getMaterial d i), d)"
| "db_step (GetMaterialsByUser u) d = (MaterialList (db_getMaterialsByUser d u), d)"
| "db_step (CreateMaterial newId now im) d =
     returned (\<lambda>r. MaterialResult (Some r)) d (db_createMaterial newId now im d)"
| "db_step (DeleteMaterial i) d = returned Deleted d (db_deleteMaterial i d)"
| "db_step (GetConversation i) d = (ConversationResult (db_getConversation d i), d)"
| "db_step (GetConversationsByUser u) d = (ConversationList (db_getConversationsByUser d u), d)"
| "db_step (CreateConversation newId now ic) d =
     returned (\<lambda>r. ConversationResult (Some r)) d (db_createConversation newId now ic d)"
| "db_step (DeleteConversation i) d = returned Deleted d (db_deleteConversation i d)"
| "db_step (GetMessage i) d = (MessageResult (db_getMessage d i), d)"
| "db_step (GetMessagesByConversation c) d = (MessageList (db_getMessagesByConversation d c), d)"
| "db_step (CreateMessage newId now im) d =
     returned (\<lambda>r. MessageResult (Some r)) d (db_createMessage newId now im d)"
| "db_step (GetMindMap i) d = (MindMapResult (db_getMindMap d i), d)"
| "db_step (GetMindMapsByUser u) d = (MindMapList (db_getMindMapsByUser d u), d)"
| "db_step (CreateMindMap newId now im) d =
     returned (\<lambda>r. MindMapResult (Some r)) d (db_createMindMap newId now im d)"
| "db_step (UpdateMindMap now i p) d = returned MindMapResult d (db_updateMindMap now i p d)"
| "db_step (DeleteMindMap i) d = returned Deleted d (db_deleteMindMap i d)"
| "db_step (GetQuiz i) d = (QuizResult (db_getQuiz d i), d)"
| "db_step (GetQuizzesByUser u) d = (QuizList (db_getQuizzesByUser d u), d)"
| "db_step (CreateQuiz newId now iq) d =
     returned (\<lambda>r. QuizResult (Some r)) d (db_createQuiz newId now iq d)"
| "db_step (DeleteQuiz i) d = returned Deleted d (db_deleteQuiz i d)"
| "db_step (GetQuizAttempt i) d = (AttemptResult (db_getQuizAttempt d i), d)"
| "db_step (GetQuizAttemptsByUser u) d = (AttemptList (db_getQuizAttemptsByUser d u), d)"
| "db_step (CreateQuizAttempt newId now ia) d =
     returned (\<lambda>r. AttemptResult (Some r)) d (db_createQuizAttempt newId now ia d)"

text \<open>The results of a sequence of calls, each on the store the previous ones left.\<close>

fun mem_run :: "op list \<Rightarrow> memStorage \<Rightarrow> result list" where
  "mem_run [] s = []"
| "mem_run (x # xs) s = (let (r, s') = mem_step x s in r # mem_run xs s')"

fun db_run :: "op list \<Rightarrow> dbStorage \<Rightarrow> result list" where
  "db_run [] d = []"
| "db_run (x # xs) d = (let (r, d') = db_step x d in r # db_run xs d')"

text \<open>
  The in-memory store adds a \<open>role\<close> to every user, a column the schema does not have;
  users are compared without it.
\<close>

definition strip_role :: "user \<Rightarrow> user" where
  "strip_role u = u\<lparr> u_role := None \<rparr>"

text \<open>
  When two results count as the same. A \<open>select\<close> without \<open>orderBy\<close> promises no
  order: the lists of the \<open>get...ByUser\<close> calls are compared as multisets. The messages
  of a conversation are the same messages, in ascending order of their timestamps on both
  sides. Everything else is compared as it is.
\<close>

definition same_result :: "result \<Rightarrow> result \<Rightarrow> bool" where
  "same_result a b =
     (case (a, b) of
        (UserResult x, UserResult y) \<Rightarrow> map_option strip_role x = map_option strip_role y
      | (MaterialList xs, MaterialList ys) \<Rightarrow> mset xs = mset ys
      | (ConversationList xs, ConversationList ys) \<Rightarrow> mset xs = mset ys
      | (MessageList xs, MessageList ys) \<Rightarrow>
          mset xs = mset ys \<and> sorted (map timestamp_key xs) \<and> sorted (map timestamp_key ys)
      | (MindMapList xs, MindMapList ys) \<Rightarrow> mset xs = mset ys
      | (QuizList xs, QuizList ys) \<Rightarrow> mset xs = mset ys
      | (AttemptList xs, AttemptList ys) \<Rightarrow> mset xs = mset ys
      | _ \<Rightarrow> a = b)"

text \<open>
  An optional value on which the \<open>||\<close> fallback of the in-memory store does not fire:
  a string that is absent or not empty, a JSON value that is absent, \<open>null\<close> or truthy.
  For a column with a default the fallback also fires on \<open>null\<close>.
\<close>

definition plain_str :: "string option \<Rightarrow> bool" where
  "plain_str x = (x \<noteq> Some [])"

definition plain_json :: "json option \<Rightarrow> bool" where
  "plain_json x = (case x of None \<Rightarrow> True | Some j \<Rightarrow> j = JNull \<or> \<not> falsy j)"

definition plain_optional :: "string optional \<Rightarrow> bool" where
  "plain_optional x = (x \<noteq> Null \<and> x \<noteq> Present [])"

text \<open>
  The calls on which the two stores are compared: no value that the fallback replaces, and
  no update that changes the id of the record it updates.
\<close>

fun plain :: "op \<Rightarrow> bool" where
  "plain (CreateUser newId now iu) = (plain_str (iu_plan iu) \<and> plain_str (iu_language iu))"
| "plain (UpdateUser i p) = (case pu_id p of None \<Rightarrow> True | Some j \<Rightarrow> j = i)"
| "plain (CreateMaterial newId now im) = (plain_str (im_content im) \<and> plain_json (im_metadata im))"
| "plain (CreateConversation newId now ic) = plain_str (ic_title ic)"
| "plain (CreateMessage newId now im) =
     (plain_str (imsg_audioUrl im) \<and> plain_json (imsg_materialIds im))"
| "plain (CreateMindMap newId now im) = plain_json (imm_materialIds im)"
| "plain (UpdateMindMap now i p) = (case pm_id p of None \<Rightarrow> True | Some j \<Rightarrow> j = i)"
| "plain (CreateQuiz newId now iq) =
     (plain_optional (iq_difficulty iq) \<and> plain_json (iq_materialIds iq))"
| "plain x = True"

definition raises :: "result \<Rightarrow> bool" where
  "raises r = (case r of Raises e \<Rightarrow> True | _ \<Rightarrow> False)"

text \<open>A sequence of such calls none of which the database refuses.\<close>

fun admissible :: "op list \<Rightarrow> dbStorage \<Rightarrow> bool" where
  "admissible [] d = True"
| "admissible (x # xs) d =
     (plain x \<and> \<not> raises (fst (db_step x d)) \<and> admissible xs (snd (db_step x d)))"

text \<open>
  The in-memory store holds the rows of the database, each under its id, and ids are not
  repeated. The tables without an update keep the order of the map; the users and the mind
  maps are the same rows in whatever order, the users carry a role in addition, and their
  names and emails are not repeated.
\<close>

definition keyed :: "('r \<Rightarrow> string) \<Rightarrow> 'r list \<Rightarrow> 'r jsmap" where
  "keyed key rows = map (\<lambda>r. (key r, r)) rows"

definition same_table :: "('r \<Rightarrow> string) \<Rightarrow> 'r jsmap \<Rightarrow> 'r list \<Rightarrow> bool" where
  "same_table key m rows = (mset m = mset (keyed key rows) \<and> distinct (map key rows))"

definition same_rows :: "memStorage \<Rightarrow> dbStorage \<Rightarrow> bool" where
  "same_rows s d =
     (same_table u_id (map (\<lambda>(k, u). (k, strip_role u)) (users s)) (db_users d)
      \<and> distinct (map u_username (db_users d)) \<and> distinct (map u_email (db_users d))
      \<and> materials s = keyed mat_id (db_materials d) \<and> distinct (map mat_id (db_materials d))
      \<and> conversations s = keyed conv_id (db_conversations d)
      \<and> distinct (map conv_id (db_conversations d))
      \<and> messages s = keyed msg_id (db_messages d) \<and> distinct (map msg_id (db_messages d))
      \<and> same_table mm_id (mindMaps s) (db_mindMaps d)
      \<and> quizzes s = keyed quiz_id (db_quizzes d) \<and> distinct (map quiz_id (db_quizzes d))
      \<and> quizAttempts s = keyed att_id (db_quizAttempts d)
      \<and> distinct (map att_id (db_quizAttempts d)))"

text \<open>Sequences of calls on which the two stores are run.\<close>

definition notes_material :: insertMaterial where
  "notes_material = \<lparr> im_filename = ''notes.txt'', im_type = ''text'',
                       im_content = Some ''photosynthesis converts light to energy'',
                       im_metadata = None, im_userId = ''u1'' \<rparr>"

definition alice :: insertUser where
  "alice = \<lparr> iu_username = ''alice'', iu_password = ''00.00'', iu_email = ''alice@example.org'',
             iu_language = None, iu_plan = None, iu_role = None \<rparr>"

definition cells :: insertMindMap where
  "cells = \<lparr> imm_title = ''Cells'', imm_nodes = JObj [], imm_materialIds = None,
             imm_userId = ''u1'' \<rparr>"

definition stars :: insertMindMap where
  "stars = \<lparr> imm_title = ''Stars'', imm_nodes = JObj [], imm_materialIds = None,
             imm_userId = ''u1'' \<rparr>"

definition untitled_quiz :: insertQuiz where
  "untitled_quiz = \<lparr> iq_title = ''Quiz'', iq_questions = JArr [], iq_materialIds = None,
                      iq_difficulty = Null, iq_userId = ''u1'' \<rparr>"

definition orphan_calls :: "op list" where
  "orphan_calls = [CreateMaterial ''m1'' 9 notes_material, GetMaterial ''m1'']"

definition null_calls :: "op list" where
  "null_calls = [CreateUser ''u1'' 1 alice, CreateQuiz ''q1'' 2 untitled_quiz]"

definition rename_calls :: "op list" where
  "rename_calls = [CreateUser ''u1'' 1 alice, CreateMindMap ''ma'' 2 cells,
                   UpdateMindMap 3 ''ma'' (no_updates\<lparr> pm_id := Some ''mz'' \<rparr>),
                   GetMindMap ''ma'']"

definition sample_calls :: "op list" where
  "sample_calls = [CreateUser ''u1'' 1 alice, CreateMindMap ''ma'' 2 cells,
                   CreateMindMap ''mb'' 3 stars,
                   UpdateMindMap 4 ''ma'' (no_updates\<lparr> pm_title := Some ''Cell biology'' \<rparr>),
                   GetMindMapsByUser ''u1'', CreateMaterial ''m1'' 9 notes_material,
                   GetMaterialsByUser ''u1'', DeleteMaterial ''m1'', GetMaterial ''m1'']"

section \<open>Facts about rows, maps and grading\<close>

lemma first_row_filter_SomeD:
  "first_row (filter P rs) = Some r \<Longrightarrow> r \<in> set rs \<and> P r"
proof -
  assume a: "first_row (filter P rs) = Some r"
  then obtain rest where "filter P rs = r # rest"
    by (cases "filter P rs") (auto simp: first_row_def)
  then have "r \<in> set (filter P rs)" by simp
  then show ?thesis by simp
qed

lemma filter_key_fresh: "k \<notin> f ` set rs \<Longrightarrow> filter (\<lambda>r. f r = k) rs = []"
  by (auto simp: filter_empty_conv)

lemma map_get_map_set_same: "map_get (map_set m k v) k = Some v"
  by (simp add: map_get_def map_set_def update_conv')







section \<open>Quiz scoring\<close>






section \<open>Ownership checks, gateway failures and material types\<close>

lemma delete_material_not_owner:
  "getMaterial st i = Some m \<Longrightarrow> mat_userId m \<noteq> v
   \<Longrightarrow> delete_material_route (Some v) i st = ((404, ErrorJson ''Material not found''), st)"
  by (simp add: delete_material_route_def)

lemma get_messages_not_owner:
  "getConversation st i = Some c \<Longrightarrow> conv_userId c \<noteq> v
   \<Longrightarrow> get_messages_route (Some v) i st = ((404, ErrorJson ''Conversation not found''), st)"
  by (simp add: get_messages_route_def)

lemma put_mindmap_not_owner:
  "getMindMap st i = Some m \<Longrightarrow> mm_userId m \<noteq> v
   \<Longrightarrow> put_mindmap_route now (Some v) i (Valid b) st = ((404, ErrorJson ''Mind map not found''), st)"
  by (simp add: put_mindmap_route_def)

text \<open>
  Claim C1. A request of user V against an entity of user U is to be answered with
  not-found. The three routes above do so. The attempt route looks the quiz up by id and
  never compares its owner with the requester: \<open>u2\<close> submits an attempt against the
  quiz of \<open>u1\<close>, and the answer is 200 with the correct answer and the explanation of
  every question; the attempt is stored.
\<close>

theorem attempt_on_foreign_quiz:
  "quiz_userId quiz1 = ''u1'' \<and>
   fst (attempt_route decimal ''a1'' 9 (Some ''u2'') ''q1'' (Valid Map.empty) (MemStorage mem1))
     = (200, AttemptJson
               \<lparr> att_id = ''a1'', att_userId = ''u2'', att_quizId = ''q1'',
                 att_answers =
                   JArr [JObj [(''questionId'', JStr ''1''), (''correctAnswer'', JStr ''A''),
                               (''isCorrect'', JBool False), (''explanation'', JStr ''sum'')],
                         JObj [(''questionId'', JStr ''2''), (''correctAnswer'', JStr ''B''),
                               (''isCorrect'', JBool False), (''explanation'', JStr ''product'')]],
                 att_score = 0, att_totalQuestions = 2, att_completedAt = Some 9 \<rparr>
               [\<lparr> ar_questionId = Some (JStr ''1''), ar_userAnswer = Undefined,
                  ar_correctAnswer = Some (JStr ''A''), ar_isCorrect = False,
                  ar_explanation = Some (JStr ''sum'') \<rparr>,
                \<lparr> ar_questionId = Some (JStr ''2''), ar_userAnswer = Undefined,
                  ar_correctAnswer = Some (JStr ''B''), ar_isCorrect = False,
                  ar_explanation = Some (JStr ''product'') \<rparr>])
   \<and> getQuizAttempt
        (snd (attempt_route decimal ''a1'' 9 (Some ''u2'') ''q1'' (Valid Map.empty)
                (MemStorage mem1))) ''a1''
       \<noteq> None"
  by (simp add: attempt_route_def not_str_def mem1_def newMemStorage_def mem_getQuiz_def
      map_get_def quiz1_def question1_def question2_def grade_def Let_def lift_mem_def
      mem_createQuizAttempt_def member_def property_key_def read_answer_def
      object_prototype_keys_def strict_equal_def result_json_def json_member_def
      answer_json_def mem_getQuizAttempt_def map_set_def)

lemma ask_gateway_not_ok:
  "\<not> not_str env_key \<Longrightarrow> \<not> response_ok upstream
   \<Longrightarrow> ask_gateway env_key upstream = Inl (GatewayError (resp_status upstream) (resp_text upstream))"
  by (simp add: ask_gateway_def createOpenRouterClient_def chat_def)

lemma generate_quiz_gateway_failure:
  "\<not> not_str userId \<Longrightarrow> \<not> not_str env_key \<Longrightarrow> \<not> response_ok upstream
   \<Longrightarrow> generate_quiz_route newId now env_key upstream parse userId (Valid b) st
       = ((400, ErrorMessage (GatewayError (resp_status upstream) (resp_text upstream))), st)"
  by (simp add: generate_quiz_route_def ask_gateway_not_ok)

lemma generate_mindmap_gateway_failure:
  "\<not> not_str userId \<Longrightarrow> \<not> not_str env_key \<Longrightarrow> \<not> response_ok upstream
   \<Longrightarrow> generate_mindmap_route newId now env_key upstream parse userId (Valid b) st
       = ((400, ErrorMessage (GatewayError (resp_status upstream) (resp_text upstream))), st)"
  by (simp add: generate_mindmap_route_def ask_gateway_not_ok)

lemma api_quizzes_generate_gateway_failure:
  "\<not> not_str topic \<Longrightarrow> \<not> not_str env_key \<Longrightarrow> \<not> response_ok upstream
   \<Longrightarrow> api_quizzes_generate_status ''POST'' topic env_key upstream parse = 500"
  by (simp add: api_quizzes_generate_status_def ask_gateway_not_ok)

text \<open>
  Claim C4. A failure of the gateway is to surface as status 500. In both generation routes
  the exception raised by \<open>chat\<close> lands in the one \<open>catch\<close> clause of the route, which
  answers 400 with the message of the exception; the serverless function that makes the same
  call answers 500.
\<close>

theorem generate_gateway_down:
  "generate_quiz_route ''q9'' 9 (Some ''key'') gateway_down (\<lambda>t. None) (Some ''u1'')
       (Valid valid_quiz_request) (MemStorage mem1)
     = ((400, ErrorMessage (GatewayError 503 ''Service Unavailable'')), MemStorage mem1)
   \<and> generate_mindmap_route ''m9'' 9 (Some ''key'') gateway_down (\<lambda>t. None) (Some ''u1'')
       (Valid valid_mindmap_request) (MemStorage mem1)
     = ((400, ErrorMessage (GatewayError 503 ''Service Unavailable'')), MemStorage mem1)
   \<and> api_quizzes_generate_status ''POST'' (Some ''Arithmetic'') (Some ''key'') gateway_down
       (\<lambda>t. None) = 500"
  by (simp add: generate_quiz_route_def generate_mindmap_route_def
      api_quizzes_generate_status_def ask_gateway_def createOpenRouterClient_def chat_def
      response_ok_def gateway_down_def not_str_def)

lemma extract_content_type:
  "extract_content env_key upstream f = Inr (t, c)
   \<Longrightarrow> t \<in> {''text'', ''pdf'', ''image'', ''file''}"
  by (auto simp: extract_content_def split: if_splits sum.splits)

text \<open>
  Claim C6. Every stored material is to carry one of the type tags pdf, image, video,
  youtube, text. The upload route starts from the tag \<open>file\<close> and replaces it for text,
  PDF and image content types only: an uploaded video is stored with the tag \<open>file\<close>.
\<close>

theorem upload_video_type:
  "fst (upload_route ''m1'' 9 None gateway_down (Some ''u1'') (Some video_file) (MemStorage mem1))
     = (200, MaterialJson
               \<lparr> mat_id = ''m1'', mat_userId = ''u1'', mat_filename = ''lecture.mp4'',
                 mat_type = ''file'', mat_content = None,
                 mat_metadata = Some (JObj [(''size'', JNum 1024), (''mimetype'', JStr ''video/mp4'')]),
                 mat_uploadedAt = Some 9 \<rparr>)
   \<and> map_option mat_type
        (getMaterial (snd (upload_route ''m1'' 9 None gateway_down (Some ''u1'') (Some video_file)
                             (MemStorage mem1))) ''m1'') = Some ''file''
   \<and> ''file'' \<notin> {''pdf'', ''image'', ''video'', ''youtube'', ''text''}"
  by (simp add: upload_route_def not_str_def extract_content_def startsWith_def video_file_def
      lift_mem_def mem_createMaterial_def Let_def or_null_def or_null_json_def
      mem_getMaterial_def map_get_map_set_same)

lemma mem_material_round_trip:
  "mem_getMaterial (snd (mem_createMaterial newId now im s)) newId
     = Some (fst (mem_createMaterial newId now im s))
   \<and> mat_filename (fst (mem_createMaterial newId now im s)) = im_filename im
   \<and> mat_type (fst (mem_createMaterial newId now im s)) = im_type im
   \<and> mat_content (fst (mem_createMaterial newId now im s)) = or_null (im_content im)"
  by (simp add: mem_createMaterial_def Let_def mem_getMaterial_def map_get_map_set_same)

lemma db_material_round_trip:
  assumes "newId \<notin> set (map mat_id (db_materials d))"
    and "im_userId im \<in> set (map u_id (db_users d))"
  shows "\<exists>m d'. db_createMaterial newId now im d = Inr (m, d')
           \<and> db_getMaterial d' newId = Some m
           \<and> mat_filename m = im_filename im \<and> mat_type m = im_type im
           \<and> mat_content m = im_content im"
  using assms
  by (simp add: db_createMaterial_def Let_def db_getMaterial_def filter_key_fresh first_row_def)


text \<open>
  Claim C5. A material is to come back from the store with the filename, type and content
  it was created with. The in-memory store writes \<open>content || null\<close>: the empty content
  that the upload route submits for a PDF comes back as \<open>null\<close>. The database-backed
  store returns the empty string.
\<close>

theorem pdf_upload_content:
  "fst (upload_route ''m1'' 9 None gateway_down (Some ''u1'') (Some pdf_file) (MemStorage mem1))
     = (200, MaterialJson
               \<lparr> mat_id = ''m1'', mat_userId = ''u1'', mat_filename = ''paper.pdf'',
                 mat_type = ''pdf'', mat_content = None,
                 mat_metadata = Some (JObj [(''size'', JNum 2048),
                                            (''mimetype'', JStr ''application/pdf'')]),
                 mat_uploadedAt = Some 9 \<rparr>)
   \<and> map_option mat_content
        (mem_getMaterial
           (snd (mem_createMaterial ''m1'' 9
                   \<lparr> im_filename = ''paper.pdf'', im_type = ''pdf'', im_content = Some [],
                     im_metadata = None, im_userId = ''u1'' \<rparr> mem1)) ''m1'') = Some None
   \<and> fst (upload_route ''m1'' 9 None gateway_down (Some ''u1'') (Some pdf_file)
            (DatabaseStorage db1))
     = (200, MaterialJson
               \<lparr> mat_id = ''m1'', mat_userId = ''u1'', mat_filename = ''paper.pdf'',
                 mat_type = ''pdf'', mat_content = Some [],
                 mat_metadata = Some (JObj [(''size'', JNum 2048),
                                            (''mimetype'', JStr ''application/pdf'')]),
                 mat_uploadedAt = Some 9 \<rparr>)"
  by (simp add: upload_route_def not_str_def extract_content_def startsWith_def pdf_file_def
      lift_mem_def mem_createMaterial_def Let_def or_null_def or_null_json_def
      mem_getMaterial_def map_get_map_set_same lift_db_def db_createMaterial_def db1_def
      newDatabaseStorage_def user1_def user2_def jsonb_nullable_def)

text \<open>The scenario of the plain-text upload.\<close>

lemma notes_upload:
  "fst (upload_route ''m1'' 9 None gateway_down (Some ''u1'') (Some notes_file) (MemStorage mem1))
     = (200, MaterialJson
               \<lparr> mat_id = ''m1'', mat_userId = ''u1'', mat_filename = ''notes.txt'',
                 mat_type = ''text'',
                 mat_content = Some ''photosynthesis converts light to energy'',
                 mat_metadata = Some (JObj [(''size'', JNum 39), (''mimetype'', JStr ''text/plain'')]),
                 mat_uploadedAt = Some 9 \<rparr>)"
  by (simp add: upload_route_def not_str_def extract_content_def startsWith_def notes_file_def
      lift_mem_def mem_createMaterial_def Let_def or_null_def or_null_json_def)

section \<open>Deleting a conversation\<close>

lemma fold_map_delete_set:
  "set (fold (\<lambda>(k, m) acc. snd (map_delete acc k)) rel ms)
     = {e \<in> set ms. fst e \<notin> fst ` set rel}"
proof (induction rel arbitrary: ms)
  case Nil
  then show ?case by simp
next
  case (Cons r rel)
  obtain k m where r: "r = (k, m)" by (cases r)
  have "set (fold (\<lambda>(k, m) acc. snd (map_delete acc k)) (r # rel) ms)
          = {e \<in> set (AList.delete k ms). fst e \<notin> fst ` set rel}"
    using Cons.IH[of "AList.delete k ms"] by (simp add: r map_delete_def)
  also have "\<dots> = {e \<in> set ms. fst e \<notin> fst ` set (r # rel)}"
    by (auto simp: r AList.delete_eq)
  finally show ?case .
qed

lemma mem_deleteConversation_messages:
  "mem_getMessagesByConversation (snd (mem_deleteConversation i s)) i = []"
proof -
  let ?rel = "filter (\<lambda>(k, m). msg_conversationId m = i) (messages s)"
  let ?msgs = "fold (\<lambda>(k, m) acc. snd (map_delete acc k)) ?rel (messages s)"
  have "\<forall>e \<in> set ?msgs. msg_conversationId (snd e) \<noteq> i"
  proof
    fix e assume "e \<in> set ?msgs"
    then have e: "e \<in> set (messages s)" "fst e \<notin> fst ` set ?rel"
      by (simp_all add: fold_map_delete_set)
    show "msg_conversationId (snd e) \<noteq> i"
    proof
      assume "msg_conversationId (snd e) = i"
      with e(1) have "e \<in> set ?rel" by (simp add: case_prod_beta)
      with e(2) show False by blast
    qed
  qed
  then have "filter (\<lambda>m. msg_conversationId m = i) (map_values ?msgs) = []"
    by (auto simp: filter_empty_conv map_values_def)
  then show ?thesis
    by (simp add: mem_deleteConversation_def mem_getMessagesByConversation_def Let_def
        split: prod.splits)
qed

lemma db_deleteConversation_messages:
  "\<exists>b d'. db_deleteConversation i d = Inr (b, d') \<and> db_getMessagesByConversation d' i = []"
proof -
  have "\<not> list_ex (\<lambda>m. msg_conversationId m = i)
            (filter (\<lambda>m. msg_conversationId m \<noteq> i) (db_messages d))"
    by (simp add: list_ex_iff)
  moreover have "filter (\<lambda>m. msg_conversationId m = i)
            (filter (\<lambda>m. msg_conversationId m \<noteq> i) (db_messages d)) = []"
    by (simp add: filter_empty_conv)
  ultimately show ?thesis
    by (simp add: db_deleteConversation_def db_getMessagesByConversation_def Let_def)
qed

text \<open>
  Claim C10. In both implementations \<open>deleteConversation\<close> returns, and afterwards
  \<open>getMessagesByConversation\<close> of the deleted id is the empty list: no message of the
  conversation survives it.
\<close>

theorem deleteConversation_deletes_messages:
  "\<exists>b st'. deleteConversation i st = Inr (b, st') \<and> getMessagesByConversation st' i = []"
proof (cases st)
  case (MemStorage s)
  then show ?thesis
    using mem_deleteConversation_messages[of i s] by (simp add: lift_mem_def)
next
  case (DatabaseStorage d)
  then show ?thesis
    using db_deleteConversation_messages[of i d] by (auto simp: lift_db_def)
qed

theorem deleteConversation_deletes_messages_witness:
  "getMessagesByConversation (MemStorage mem2) ''c1'' = [message1, message3]
   \<and> (\<exists>b st'. deleteConversation ''c1'' (MemStorage mem2) = Inr (b, st')
         \<and> getMessagesByConversation st' ''c1'' = [])
   \<and> getMessagesByConversation (DatabaseStorage db2) ''c1'' = [message1, message3]
   \<and> (\<exists>b st'. deleteConversation ''c1'' (DatabaseStorage db2) = Inr (b, st')
         \<and> getMessagesByConversation st' ''c1'' = [])"
  using deleteConversation_deletes_messages[of "''c1''" "MemStorage mem2"]
    deleteConversation_deletes_messages[of "''c1''" "DatabaseStorage db2"]
  by (simp add: mem_getMessagesByConversation_def mem2_def map_values_def
      db_getMessagesByConversation_def db2_def
      message1_def message2_def message3_def timestamp_key_def)

section \<open>Updating a mind map\<close>













text \<open>
  An update that changes the id, on each store: the in-memory store keeps the record, with
  its new id, under the id of the call.
\<close>

lemma mem_update_id:
  "map_option mm_id
     (mem_getMindMap (snd (mem_updateMindMap 9 ''mm1'' (no_updates\<lparr> pm_id := Some ''mm9'' \<rparr>) mem3))
        ''mm1'') = Some ''mm9''
   \<and> mem_getMindMap (snd (mem_updateMindMap 9 ''mm1'' (no_updates\<lparr> pm_id := Some ''mm9'' \<rparr>) mem3))
        ''mm9'' = None"
  by (simp add: mem_updateMindMap_def mem_getMindMap_def mem3_def mem1_def newMemStorage_def
      map_get_def map_set_def spread_mindMap_def no_updates_def Let_def mindMap1_def)

section \<open>Password hashes\<close>

lemma hex_digits_all:
  "\<forall>n \<in> {..<16::nat}. hex_value (hex_digit n) = Some n \<and> hex_digit n \<noteq> CHR ''.''"
  by (simp add: lessThan_nat_numeral lessThan_Suc hex_value_def hex_digit_def)


lemma hex_digit_not_dot: "n < 16 \<Longrightarrow> hex_digit n \<noteq> CHR ''.''"
  using hex_digits_all by blast

lemma byte_nibbles:
  fixes b :: byte
  shows "unat b div 16 < 16" "unat b mod 16 < 16"
    "word_of_nat (16 * (unat b div 16) + unat b mod 16) = b"
proof -
  have "unat b < 256" using unsigned_less[of b] by simp
  then show "unat b div 16 < 16" by simp
  show "unat b mod 16 < 16" by simp
  show "word_of_nat (16 * (unat b div 16) + unat b mod 16) = b" by simp
qed


lemma to_hex_no_dot: "CHR ''.'' \<notin> set (to_hex bs)"
proof (induction bs)
  case Nil
  then show ?case by (simp add: to_hex_def)
next
  case (Cons b bs)
  have "hex_digit (unat b div 16) \<noteq> CHR ''.''" "hex_digit (unat b mod 16) \<noteq> CHR ''.''"
    by (simp_all add: hex_digit_not_dot byte_nibbles)
  with Cons show ?case by (auto simp: to_hex_def)
qed

lemma length_to_hex: "length (to_hex bs) = 2 * length bs"
  by (induction bs) (simp_all add: to_hex_def)

lemma split_dot_no_dot: "CHR ''.'' \<notin> set s \<Longrightarrow> split_dot s = [s]"
  by (induction s) auto

lemma split_dot_append:
  "CHR ''.'' \<notin> set h \<Longrightarrow> split_dot (h @ CHR ''.'' # s) = h # split_dot s"
  by (induction h) auto

lemma split_dot_hashPassword:
  "split_dot (hashPassword scrypt random password)
     = [to_hex (scrypt password (to_hex random) 64), to_hex random]"
  by (simp add: hashPassword_def Let_def split_dot_append split_dot_no_dot to_hex_no_dot)



lemma first_row_filter_find: "first_row (filter P xs) = List.find P xs"
  by (induction xs) (simp_all add: first_row_def)

lemma getUserByUsername_find:
  "getUserByUsername st name = List.find (\<lambda>u. u_username u = name) (stored_users st)"
  by (cases st)
    (simp_all add: stored_users_def mem_getUserByUsername_def array_find_def map_values_def
      db_getUserByUsername_def first_row_filter_find)





text \<open>
  Registration keeps the two conditions on the store under which the login is stated
  below: it stores no second user of a name, and every password it stores is 64 bytes in
  hexadecimal, a dot and a salt in hexadecimal.
\<close>

lemma update_values: "(a, b) \<in> set (AList.update k v m) \<Longrightarrow> b = v \<or> b \<in> snd ` set m"
  by (induction m) (force split: if_splits)+

lemma update_distinct:
  "distinct (map f (map snd m)) \<Longrightarrow> f v \<notin> f ` set (map snd m)
   \<Longrightarrow> distinct (map f (map snd (AList.update k v m)))"
proof (induction m)
  case Nil
  then show ?case by simp
next
  case (Cons e m)
  obtain k' v' where e: "e = (k', v')" by (cases e)
  from Cons.prems have d: "distinct (map f (map snd m))" and v': "f v' \<notin> f ` snd ` set m"
    and fv: "f v \<noteq> f v'" "f v \<notin> f ` set (map snd m)"
    by (auto simp: e)
  show ?case
  proof (cases "k' = k")
    case True
    with d fv show ?thesis by (auto simp: e)
  next
    case False
    have "f v' \<notin> f ` snd ` set (AList.update k v m)"
    proof
      assume "f v' \<in> f ` snd ` set (AList.update k v m)"
      then obtain a b where ab: "(a, b) \<in> set (AList.update k v m)" and fb: "f v' = f b"
        by auto
      from update_values[OF ab] fb fv(1) v' show False by auto
    qed
    with False Cons.IH[OF d fv(2)] show ?thesis by (auto simp: e)
  qed
qed

lemma stored_users_created:
  assumes "createUser newId now iu st = Inr (user, st')"
  shows "set (stored_users st') \<subseteq> insert user (set (stored_users st))"
    "u_username user = iu_username iu" "u_password user = iu_password iu"
proof -
  show "set (stored_users st') \<subseteq> insert user (set (stored_users st))"
  proof (cases st)
    case (MemStorage s)
    with assms have "user = fst (mem_createUser newId now iu s)"
      "st' = MemStorage (snd (mem_createUser newId now iu s))"
      by (simp_all add: lift_mem_def)
    then have "stored_users st' = map snd (AList.update newId user (users s))"
      by (simp add: mem_createUser_def Let_def stored_users_def map_set_def)
    with MemStorage show ?thesis
      by (auto simp: stored_users_def dest: update_values)
  next
    case (DatabaseStorage d)
    with assms show ?thesis
      by (auto simp: lift_db_def db_createUser_def Let_def stored_users_def split: if_splits)
  qed
  show "u_username user = iu_username iu" "u_password user = iu_password iu"
    using assms
    by (cases st; auto simp: lift_mem_def mem_createUser_def lift_db_def db_createUser_def Let_def
        split: if_splits)+
qed

lemma register_keeps_names:
  assumes "distinct (map u_username (stored_users st))"
  shows "distinct (map u_username
           (stored_users (snd (register_route scrypt USE_JWT_AUTH newId now random body st))))"
proof (cases "getUserByUsername st (iu_username body)")
  case (Some u)
  with assms show ?thesis by (simp add: register_route_def)
next
  case None
  then have fresh: "iu_username body \<notin> u_username ` set (stored_users st)"
    by (auto simp: getUserByUsername_find find_None_iff)
  let ?iu = "body\<lparr> iu_password := hashPassword scrypt random (iu_password body) \<rparr>"
  show ?thesis
  proof (cases "getUserByEmail st (iu_email body)")
    case (Some u)
    with None assms show ?thesis by (simp add: register_route_def)
  next
    case e: None
    show ?thesis
    proof (cases "createUser newId now ?iu st")
      case (Inl err)
      with None e assms show ?thesis by (simp add: register_route_def)
    next
      case (Inr r)
      obtain user st' where r: "r = (user, st')" by (cases r)
      have "distinct (map u_username (stored_users st'))"
      proof (cases st)
        case (MemStorage s)
        with Inr r have u: "user = fst (mem_createUser newId now ?iu s)"
          "st' = MemStorage (snd (mem_createUser newId now ?iu s))"
          by (simp_all add: lift_mem_def)
        have "u_username user = iu_username body" by (simp add: u(1) mem_createUser_def Let_def)
        with fresh MemStorage have "u_username user \<notin> u_username ` set (map snd (users s))"
          by (simp add: stored_users_def)
        from update_distinct[OF _ this, of newId] assms MemStorage show ?thesis
          by (simp add: u stored_users_def mem_createUser_def Let_def map_set_def)
      next
        case (DatabaseStorage d)
        with Inr r fresh assms show ?thesis
          by (auto simp: lift_db_def db_createUser_def Let_def stored_users_def split: if_splits)
      qed
      with None e Inr r show ?thesis by (simp add: register_route_def)
    qed
  qed
qed

lemma register_keeps_hashes:
  assumes len: "\<forall>p s. length (scrypt p s 64) = 64"
    and old: "\<forall>u \<in> set (stored_users st).
                \<exists>h r. length h = 64 \<and> u_password u = to_hex h @ ''.'' @ to_hex r"
  shows "\<forall>u \<in> set (stored_users
                     (snd (register_route scrypt USE_JWT_AUTH newId now random body st))).
           \<exists>h r. length h = 64 \<and> u_password u = to_hex h @ ''.'' @ to_hex r"
proof -
  let ?iu = "body\<lparr> iu_password := hashPassword scrypt random (iu_password body) \<rparr>"
  show ?thesis
  proof (cases "createUser newId now ?iu st")
    case (Inl err)
    with old show ?thesis by (simp add: register_route_def split: option.splits)
  next
    case (Inr r)
    obtain user st' where r: "r = (user, st')" by (cases r)
    from Inr r have c: "createUser newId now ?iu st = Inr (user, st')" by simp
    from stored_users_created(3)[OF c]
    have "u_password user
            = to_hex (scrypt (iu_password body) (to_hex random) 64) @ ''.'' @ to_hex random"
      by (simp add: hashPassword_def Let_def)
    with len have "\<exists>h r. length h = 64 \<and> u_password user = to_hex h @ ''.'' @ to_hex r"
      by blast
    with old stored_users_created(1)[OF c]
    have "\<forall>u \<in> set (stored_users st').
            \<exists>h r. length h = 64 \<and> u_password u = to_hex h @ ''.'' @ to_hex r"
      by blast
    with old Inr r show ?thesis by (simp add: register_route_def split: option.splits)
  qed
qed


lemma first_row_None: "first_row rs = None \<longleftrightarrow> rs = []"
  by (cases rs) (simp_all add: first_row_def)

lemma db_unique_free:
  "first_row (filter (\<lambda>r. f r = k) rs) = None \<Longrightarrow> k \<notin> f ` set rs"
  by (auto simp: first_row_None filter_empty_conv)

lemma createUser_password:
  assumes "getUserByUsername st (iu_username iu) = None"
    and "getUserByEmail st (iu_email iu) = None"
    and "accepts_user st newId"
  shows "\<exists>user st'. createUser newId now iu st = Inr (user, st')
           \<and> u_password user = iu_password iu \<and> u_id user = newId
           \<and> getUser st' newId = Some user"
proof (cases st)
  case (MemStorage s)
  then show ?thesis
    by (simp add: lift_mem_def mem_createUser_def Let_def mem_getUser_def map_get_map_set_same)
next
  case (DatabaseStorage d)
  with assms have "iu_username iu \<notin> u_username ` set (db_users d)"
    "iu_email iu \<notin> u_email ` set (db_users d)" "newId \<notin> u_id ` set (db_users d)"
    by (simp_all add: db_getUserByUsername_def db_getUserByEmail_def db_unique_free
        accepts_user_def)
  then show ?thesis using DatabaseStorage
    by (simp add: lift_db_def db_createUser_def Let_def db_getUser_def filter_key_fresh
        first_row_def)
qed

lemma hash_differs:
  assumes "\<not> suffix (to_hex random) password"
  shows "hashPassword scrypt random password \<noteq> password"
proof
  assume "hashPassword scrypt random password = password"
  then have "password = (to_hex (scrypt password (to_hex random) 64) @ ''.'') @ to_hex random"
    by (simp add: hashPassword_def Let_def)
  then have "suffix (to_hex random) password" by (metis suffixI)
  with assms show False by simp
qed

text \<open>
  Claim C8. For a registration with a name and an email that are not taken, the route
  answers 201 and the stored user's password is the hexadecimal scrypt hash, a dot, and the
  hexadecimal salt; it is not the plaintext. The salt is drawn after the password is
  known: the plaintext does not already end with it.
\<close>

theorem register_stores_hash:
  assumes name: "getUserByUsername st (iu_username body) = None"
    and email: "getUserByEmail st (iu_email body) = None"
    and acc: "accepts_user st newId"
    and salt: "\<not> suffix (to_hex random) (iu_password body)"
  shows "\<exists>user tok st'.
           register_route scrypt USE_JWT_AUTH newId now random body st
             = ((201, UserJson (without_password user) tok), st')
         \<and> getUser st' newId = Some user
         \<and> u_password user
             = to_hex (scrypt (iu_password body) (to_hex random) 64) @ ''.'' @ to_hex random
         \<and> u_password user \<noteq> iu_password body"
proof -
  let ?iu = "body\<lparr> iu_password := hashPassword scrypt random (iu_password body) \<rparr>"
  have "getUserByUsername st (iu_username ?iu) = None" "getUserByEmail st (iu_email ?iu) = None"
    using name email by simp_all
  from createUser_password[OF this acc, of now] obtain user st' where
    c: "createUser newId now ?iu st = Inr (user, st')"
    and p: "u_password user = hashPassword scrypt random (iu_password body)"
    and g: "getUser st' newId = Some user"
    by (elim exE conjE) simp
  have r: "register_route scrypt USE_JWT_AUTH newId now random body st
             = ((201, UserJson (without_password user)
                        (if USE_JWT_AUTH then Some (generateToken (u_id user)) else None)), st')"
    using name email c by (simp add: register_route_def)
  have h: "u_password user
             = to_hex (scrypt (iu_password body) (to_hex random) 64) @ ''.'' @ to_hex random"
    by (simp add: p hashPassword_def Let_def)
  have d: "u_password user \<noteq> iu_password body"
    using hash_differs[OF salt, of scrypt] by (simp add: p)
  show ?thesis
    apply (rule exI[of _ user])
    apply (rule exI[of _ "if USE_JWT_AUTH then Some (generateToken (u_id user)) else None"])
    apply (rule exI[of _ st'])
    apply (intro conjI)
       apply (rule r)
      apply (rule g)
     apply (rule h)
    apply (rule d)
    done
qed



theorem register_stores_hash_witness:
  "\<exists>user tok st'.
     register_route sample_kdf False ''u5'' 9 sample_salt carol (DatabaseStorage db4)
       = ((201, UserJson (without_password user) tok), st')
     \<and> getUser st' ''u5'' = Some user
     \<and> u_password user
         = to_hex (sample_kdf ''correct horse'' (to_hex sample_salt) 64) @ ''.'' @ to_hex sample_salt
     \<and> u_password user \<noteq> ''correct horse''"
proof -
  have a: "getUserByUsername (DatabaseStorage db4) (iu_username carol) = None"
    by (simp add: db_getUserByUsername_def db4_def newDatabaseStorage_def first_row_def dave_def
        carol_def)
  have b: "getUserByEmail (DatabaseStorage db4) (iu_email carol) = None"
    by (simp add: db_getUserByEmail_def db4_def newDatabaseStorage_def first_row_def dave_def
        carol_def)
  have c: "accepts_user (DatabaseStorage db4) ''u5''"
    by (simp add: accepts_user_def db4_def newDatabaseStorage_def dave_def)
  have d: "\<not> suffix (to_hex sample_salt) (iu_password carol)"
  proof
    assume "suffix (to_hex sample_salt) (iu_password carol)"
    then have "length (to_hex sample_salt) \<le> length (iu_password carol)"
      by (rule suffix_length_le)
    then show False by (simp add: length_to_hex sample_salt_def carol_def)
  qed
  from register_stores_hash[where scrypt=sample_kdf and USE_JWT_AUTH=False and now=9, OF a b c d]
  show ?thesis by (simp add: carol_def)
qed

section \<open>The in-memory store simulates the database\<close>

subsection \<open>A map and a table with the same rows\<close>

lemma keyed_fst [simp]: "map fst (keyed key rows) = map key rows"
  by (simp add: keyed_def comp_def)

lemma keyed_snd [simp]: "map snd (keyed key rows) = rows"
  by (simp add: keyed_def comp_def)

lemma same_table_keys:
  assumes "same_table key m rows"
  shows "mset (map fst m) = mset (map key rows)" "distinct (map fst m)"
proof -
  from assms have e: "mset m = mset (keyed key rows)" and d: "distinct (map key rows)"
    by (simp_all add: same_table_def)
  from e have "mset (map fst m) = mset (map fst (keyed key rows))" by (metis mset_map)
  then show k: "mset (map fst m) = mset (map key rows)" by simp
  from mset_eq_imp_distinct_iff[OF k] d show "distinct (map fst m)" by simp
qed

lemma same_table_values:
  assumes "same_table key m rows"
  shows "mset (map_values m) = mset rows"
proof -
  from assms have "mset m = mset (keyed key rows)" by (simp add: same_table_def)
  then have "mset (map snd m) = mset (map snd (keyed key rows))" by (metis mset_map)
  then show ?thesis by (simp add: map_values_def)
qed

lemma same_table_filter:
  assumes "same_table key m rows"
  shows "mset (filter P (map_values m)) = mset (filter P rows)"
  using same_table_values[OF assms] by (simp add: mset_filter del: mset_map)

lemma same_table_set:
  assumes "same_table key m rows"
  shows "(k, v) \<in> set m \<longleftrightarrow> v \<in> set rows \<and> key v = k"
proof -
  from assms have "mset m = mset (keyed key rows)" by (simp add: same_table_def)
  then have "set m = set (keyed key rows)" by (rule mset_eq_setD)
  then show ?thesis by (auto simp: keyed_def)
qed

lemma first_row_unique:
  assumes "distinct (map key rows)" and "r \<in> set rows"
  shows "first_row (filter (\<lambda>x. key x = key r) rows) = Some r"
  using assms by (induction rows) (auto simp: first_row_def image_iff)

lemma first_row_absent: "k \<notin> key ` set rows \<Longrightarrow> first_row (filter (\<lambda>x. key x = k) rows) = None"
  by (induction rows) (auto simp: first_row_def)

lemma same_table_get:
  assumes t: "same_table key m rows"
  shows "map_get m i = first_row (filter (\<lambda>r. key r = i) rows)"
proof (cases "map_of m i")
  case None
  then have "i \<notin> fst ` set m" by (simp add: map_of_eq_None_iff)
  moreover from same_table_keys(1)[OF t] have "set (map fst m) = set (map key rows)"
    by (rule mset_eq_setD)
  ultimately have "i \<notin> key ` set rows" by simp
  with None show ?thesis by (simp add: map_get_def first_row_absent)
next
  case (Some v)
  then have "(i, v) \<in> set m" by (rule map_of_SomeD)
  with same_table_set[OF t] have v: "v \<in> set rows" "key v = i" by simp_all
  from t have "distinct (map key rows)" by (simp add: same_table_def)
  from first_row_unique[OF this v(1)] Some v(2) show ?thesis by (simp add: map_get_def)
qed

lemma update_fresh: "k \<notin> fst ` set m \<Longrightarrow> AList.update k v m = m @ [(k, v)]"
  by (induction m) auto

lemma same_table_insert:
  assumes t: "same_table key m rows" and f: "key r \<notin> key ` set rows"
  shows "same_table key (map_set m (key r) r) (rows @ [r])"
proof -
  from same_table_keys(1)[OF t] have "set (map fst m) = set (map key rows)"
    by (rule mset_eq_setD)
  with f have "key r \<notin> fst ` set m" by simp
  then have "map_set m (key r) r = m @ [(key r, r)]" by (simp add: map_set_def update_fresh)
  with t f show ?thesis by (simp add: same_table_def keyed_def)
qed

lemma mset_update_present:
  "distinct (map fst m) \<Longrightarrow> k \<in> fst ` set m
   \<Longrightarrow> mset (AList.update k v m) = filter_mset (\<lambda>e. fst e \<noteq> k) (mset m) + {#(k, v)#}"
proof (induction m)
  case Nil
  then show ?case by simp
next
  case (Cons e m)
  obtain k' v' where e: "e = (k', v')" by (cases e)
  show ?case
  proof (cases "k' = k")
    case True
    with Cons.prems e have "k \<notin> fst ` set m" by auto
    then have "filter_mset (\<lambda>e. fst e \<noteq> k) (mset m) = mset m"
      by (auto simp: filter_mset_eq_conv image_iff)
    with True e show ?thesis by simp
  next
    case False
    with Cons.prems e have "distinct (map fst m)" "k \<in> fst ` set m" by auto
    from Cons.IH[OF this] False e show ?thesis by simp
  qed
qed

lemma same_table_update:
  assumes t: "same_table key m rows" and p: "key r \<in> key ` set rows"
  shows "same_table key (map_set m (key r) r) (filter (\<lambda>x. key x \<noteq> key r) rows @ [r])"
proof -
  from t have e: "mset m = mset (keyed key rows)" and d: "distinct (map key rows)"
    by (simp_all add: same_table_def)
  from same_table_keys(1)[OF t] have "set (map fst m) = set (map key rows)"
    by (rule mset_eq_setD)
  with p have k: "key r \<in> fst ` set m" by simp
  have "mset (map_set m (key r) r)
          = filter_mset (\<lambda>e. fst e \<noteq> key r) (mset (keyed key rows)) + {#(key r, r)#}"
    unfolding map_set_def mset_update_present[OF same_table_keys(2)[OF t] k] e ..
  also have "filter_mset (\<lambda>e. fst e \<noteq> key r) (mset (keyed key rows))
               = mset (keyed key (filter (\<lambda>x. key x \<noteq> key r) rows))"
    by (induction rows) (simp_all add: keyed_def)
  finally have m: "mset (map_set m (key r) r)
                     = mset (keyed key (filter (\<lambda>x. key x \<noteq> key r) rows @ [r]))"
    by (simp add: keyed_def)
  have "distinct (map key (filter (\<lambda>x. key x \<noteq> key r) rows @ [r]))"
    using d by (auto simp: distinct_map_filter)
  with m show ?thesis by (simp add: same_table_def)
qed

lemma same_table_delete:
  assumes t: "same_table key m rows"
  shows "same_table key (snd (map_delete m i)) (filter (\<lambda>r. key r \<noteq> i) rows)"
    "fst (map_delete m i) = (0 < length (filter (\<lambda>r. key r = i) rows))"
proof -
  from t have e: "mset m = mset (keyed key rows)" and d: "distinct (map key rows)"
    by (simp_all add: same_table_def)
  have "mset (AList.delete i m) = filter_mset (\<lambda>e. fst e \<noteq> i) (mset m)"
    by (induction m) auto
  also have "\<dots> = filter_mset (\<lambda>e. fst e \<noteq> i) (mset (keyed key rows))" by (simp only: e)
  also have "\<dots> = mset (keyed key (filter (\<lambda>r. key r \<noteq> i) rows))"
    by (induction rows) (simp_all add: keyed_def)
  finally show "same_table key (snd (map_delete m i)) (filter (\<lambda>r. key r \<noteq> i) rows)"
    using d by (simp add: same_table_def map_delete_def distinct_map_filter)
  from same_table_keys(1)[OF t] have "set (map fst m) = set (map key rows)"
    by (rule mset_eq_setD)
  then show "fst (map_delete m i) = (0 < length (filter (\<lambda>r. key r = i) rows))"
    by (auto simp: map_delete_def map_has_def filter_empty_conv image_iff)
qed

lemma find_first_row: "array_find p xs = first_row (filter p xs)"
  by (induction xs) (auto simp: array_find_def first_row_def)

lemma unique_filter:
  assumes "distinct (map f xs)"
  shows "filter (\<lambda>x. f x = n) xs = [] \<or> (\<exists>x. filter (\<lambda>x. f x = n) xs = [x])"
  using assms by (induction xs) (auto simp: filter_empty_conv image_iff)

lemma same_unique:
  assumes m: "mset xs = mset ys" and d: "distinct (map f ys)"
  shows "first_row (filter (\<lambda>x. f x = n) xs) = first_row (filter (\<lambda>x. f x = n) ys)"
proof -
  from m have "mset (map f xs) = mset (map f ys)" by (metis mset_map)
  from mset_eq_imp_distinct_iff[OF this] d have dx: "distinct (map f xs)" by simp
  have e: "mset (filter (\<lambda>x. f x = n) xs) = mset (filter (\<lambda>x. f x = n) ys)"
    by (simp only: mset_filter m)
  from unique_filter[OF dx, of n] unique_filter[OF d, of n] e show ?thesis
    by (auto simp: first_row_def simp del: mset_filter)
qed

subsection \<open>The tables that are only inserted into and deleted from\<close>

lemma same_result_same [simp]:
  "same_result (MaterialResult a) (MaterialResult a)"
  "same_result (ConversationResult b) (ConversationResult b)"
  "same_result (MessageResult c) (MessageResult c)"
  "same_result (MindMapResult e) (MindMapResult e)"
  "same_result (QuizResult f) (QuizResult f)"
  "same_result (AttemptResult g) (AttemptResult g)"
  "same_result (Deleted h) (Deleted h)"
  by (simp_all add: same_result_def)

lemma same_result_lists [simp]:
  "same_result (MaterialList as) (MaterialList as') \<longleftrightarrow> mset as = mset as'"
  "same_result (ConversationList bs) (ConversationList bs') \<longleftrightarrow> mset bs = mset bs'"
  "same_result (MindMapList es) (MindMapList es') \<longleftrightarrow> mset es = mset es'"
  "same_result (QuizList fs) (QuizList fs') \<longleftrightarrow> mset fs = mset fs'"
  "same_result (AttemptList gs) (AttemptList gs') \<longleftrightarrow> mset gs = mset gs'"
  "same_result (MessageList cs) (MessageList cs')
     \<longleftrightarrow> mset cs = mset cs' \<and> sorted (map timestamp_key cs) \<and> sorted (map timestamp_key cs')"
  "same_result (UserResult x) (UserResult y)
     \<longleftrightarrow> map_option strip_role x = map_option strip_role y"
  by (simp_all add: same_result_def)

lemma map_get_keyed: "map_get (keyed key rows) k = first_row (filter (\<lambda>r. key r = k) rows)"
  by (induction rows) (auto simp: map_get_def keyed_def first_row_def)

lemma map_values_keyed: "map_values (keyed key rows) = rows"
  by (simp add: map_values_def keyed_def comp_def)

lemma map_set_keyed_fresh:
  "k \<notin> key ` set rows \<Longrightarrow> key v = k \<Longrightarrow> map_set (keyed key rows) k v = keyed key (rows @ [v])"
  by (induction rows) (auto simp: map_set_def keyed_def)

lemma map_delete_keyed:
  "map_delete (keyed key rows) k
     = (0 < length (filter (\<lambda>r. key r = k) rows), keyed key (filter (\<lambda>r. key r \<noteq> k) rows))"
proof -
  have "AList.delete k (keyed key rows) = keyed key (filter (\<lambda>r. key r \<noteq> k) rows)"
    by (induction rows) (auto simp: keyed_def)
  moreover have "map_has (keyed key rows) k = (0 < length (filter (\<lambda>r. key r = k) rows))"
    by (auto simp: map_has_def keyed_def comp_def filter_empty_conv image_iff)
  ultimately show ?thesis by (simp add: map_delete_def)
qed

lemma strip_role_sel [simp]:
  "u_id (strip_role u) = u_id u" "u_username (strip_role u) = u_username u"
  "u_email (strip_role u) = u_email u" "u_password (strip_role u) = u_password u"
  "u_plan (strip_role u) = u_plan u" "u_language (strip_role u) = u_language u"
  "u_createdAt (strip_role u) = u_createdAt u" "u_role (strip_role u) = None"
  by (simp_all add: strip_role_def)

lemma same_rowsD:
  assumes "same_rows s d"
  shows "materials s = keyed mat_id (db_materials d)"
    "conversations s = keyed conv_id (db_conversations d)"
    "messages s = keyed msg_id (db_messages d)"
    "same_table mm_id (mindMaps s) (db_mindMaps d)"
    "quizzes s = keyed quiz_id (db_quizzes d)"
    "quizAttempts s = keyed att_id (db_quizAttempts d)"
    "same_table u_id (map (\<lambda>(k, u). (k, strip_role u)) (users s)) (db_users d)"
    "distinct (map mat_id (db_materials d))"
    "distinct (map conv_id (db_conversations d))" "distinct (map msg_id (db_messages d))"
    "distinct (map mm_id (db_mindMaps d))" "distinct (map quiz_id (db_quizzes d))"
    "distinct (map att_id (db_quizAttempts d))"
    "distinct (map u_username (db_users d))" "distinct (map u_email (db_users d))"
    "distinct (map u_id (db_users d))"
  using assms by (simp_all add: same_rows_def same_table_def)

lemma same_rows_materials:
  "same_rows s d \<Longrightarrow> distinct (map mat_id rows)
   \<Longrightarrow> same_rows (s\<lparr> materials := keyed mat_id rows \<rparr>) (d\<lparr> db_materials := rows \<rparr>)"
  by (simp add: same_rows_def)

lemma same_rows_conversations:
  "same_rows s d \<Longrightarrow> distinct (map conv_id rows)
   \<Longrightarrow> same_rows (s\<lparr> conversations := keyed conv_id rows \<rparr>) (d\<lparr> db_conversations := rows \<rparr>)"
  by (simp add: same_rows_def)

lemma same_rows_messages:
  "same_rows s d \<Longrightarrow> distinct (map msg_id rows)
   \<Longrightarrow> same_rows (s\<lparr> messages := keyed msg_id rows \<rparr>) (d\<lparr> db_messages := rows \<rparr>)"
  by (simp add: same_rows_def)

lemma same_rows_quizzes:
  "same_rows s d \<Longrightarrow> distinct (map quiz_id rows)
   \<Longrightarrow> same_rows (s\<lparr> quizzes := keyed quiz_id rows \<rparr>) (d\<lparr> db_quizzes := rows \<rparr>)"
  by (simp add: same_rows_def)

lemma same_rows_quizAttempts:
  "same_rows s d \<Longrightarrow> distinct (map att_id rows)
   \<Longrightarrow> same_rows (s\<lparr> quizAttempts := keyed att_id rows \<rparr>) (d\<lparr> db_quizAttempts := rows \<rparr>)"
  by (simp add: same_rows_def)

lemma plain_str_or_null: "plain_str x \<Longrightarrow> or_null x = x"
  by (auto simp: or_null_def plain_str_def split: option.splits)

lemma plain_str_or_default: "plain_str x \<Longrightarrow> or_default x d = column_default x d"
  by (auto simp: or_default_def column_default_def plain_str_def split: option.splits)

lemma plain_json_or_null: "plain_json x \<Longrightarrow> or_null_json x = jsonb_nullable x"
  by (auto simp: or_null_json_def jsonb_nullable_def plain_json_def split: option.splits)

lemma plain_optional_default:
  "plain_optional x \<Longrightarrow> Some (or_default (nullish x) d) = nullable_default x d"
  by (cases x) (simp_all add: plain_optional_def or_default_def nullish_def nullable_default_def)

lemma material_get:
  assumes "same_rows s d"
  shows "mem_getMaterial s i = db_getMaterial d i"
    "mem_getMaterialsByUser s i = db_getMaterialsByUser d i"
  by (simp_all add: same_rowsD(1)[OF assms] mem_getMaterial_def db_getMaterial_def map_get_keyed
      mem_getMaterialsByUser_def db_getMaterialsByUser_def map_values_keyed)

lemma material_create:
  assumes r: "same_rows s d" and p: "plain (CreateMaterial i now im)"
    and a: "\<not> raises (fst (db_step (CreateMaterial i now im) d))"
  shows "same_result (fst (mem_step (CreateMaterial i now im) s)) (fst (db_step (CreateMaterial i now im) d))
         \<and> same_rows (snd (mem_step (CreateMaterial i now im) s))
                      (snd (db_step (CreateMaterial i now im) d))"
proof -
  from a have f: "i \<notin> mat_id ` set (db_materials d)" "im_userId im \<in> u_id ` set (db_users d)"
    by (auto simp: raises_def returned_def db_createMaterial_def split: if_splits)
  from p have c: "or_null (im_content im) = im_content im"
    "or_null_json (im_metadata im) = jsonb_nullable (im_metadata im)"
    by (simp_all add: plain_str_or_null plain_json_or_null)
  let ?row = "\<lparr> mat_id = i, mat_userId = im_userId im, mat_filename = im_filename im,
                mat_type = im_type im, mat_content = im_content im,
                mat_metadata = jsonb_nullable (im_metadata im), mat_uploadedAt = Some now \<rparr>"
  have m: "mem_step (CreateMaterial i now im) s
             = (MaterialResult (Some ?row), s\<lparr> materials := keyed mat_id (db_materials d @ [?row]) \<rparr>)"
    using f(1)
    by (simp add: created_def mem_createMaterial_def Let_def c same_rowsD(1)[OF r]
        map_set_keyed_fresh)
  have b: "db_step (CreateMaterial i now im) d
             = (MaterialResult (Some ?row), d\<lparr> db_materials := db_materials d @ [?row] \<rparr>)"
    using f by (simp add: returned_def db_createMaterial_def Let_def)
  have "distinct (map mat_id (db_materials d @ [?row]))"
    using f(1) same_rowsD(8)[OF r] by simp
  from same_rows_materials[OF r this] show ?thesis unfolding m b by simp
qed

lemma material_delete:
  assumes r: "same_rows s d"
  shows "same_result (fst (mem_step (DeleteMaterial i) s)) (fst (db_step (DeleteMaterial i) d))
         \<and> same_rows (snd (mem_step (DeleteMaterial i) s)) (snd (db_step (DeleteMaterial i) d))"
proof -
  have "distinct (map mat_id (filter (\<lambda>m. mat_id m \<noteq> i) (db_materials d)))"
    using same_rowsD(8)[OF r] by (simp add: distinct_map_filter)
  from same_rows_materials[OF r this] show ?thesis
    by (simp add: created_def returned_def mem_deleteMaterial_def db_deleteMaterial_def Let_def
        same_rowsD(1)[OF r] map_delete_keyed)
qed

lemma conversation_get:
  assumes "same_rows s d"
  shows "mem_getConversation s i = db_getConversation d i"
    "mem_getConversationsByUser s i = db_getConversationsByUser d i"
    "mem_getMessage s i = db_getMessage d i"
    "mem_getMessagesByConversation s i = db_getMessagesByConversation d i"
  by (simp_all add: same_rowsD(2,3)[OF assms] mem_getConversation_def db_getConversation_def
      map_get_keyed mem_getConversationsByUser_def db_getConversationsByUser_def map_values_keyed
      mem_getMessage_def db_getMessage_def mem_getMessagesByConversation_def
      db_getMessagesByConversation_def)

lemma conversation_create:
  assumes r: "same_rows s d" and p: "plain (CreateConversation i now ic)"
    and a: "\<not> raises (fst (db_step (CreateConversation i now ic) d))"
  shows "same_result (fst (mem_step (CreateConversation i now ic) s)) (fst (db_step (CreateConversation i now ic) d))
         \<and> same_rows (snd (mem_step (CreateConversation i now ic) s))
                      (snd (db_step (CreateConversation i now ic) d))"
proof -
  from a have f: "i \<notin> conv_id ` set (db_conversations d)" "ic_userId ic \<in> u_id ` set (db_users d)"
    by (auto simp: raises_def returned_def db_createConversation_def split: if_splits)
  from p have c: "or_null (ic_title ic) = ic_title ic" by (simp add: plain_str_or_null)
  let ?row = "\<lparr> conv_id = i, conv_userId = ic_userId ic, conv_title = ic_title ic,
                conv_createdAt = Some now \<rparr>"
  have m: "mem_step (CreateConversation i now ic) s
             = (ConversationResult (Some ?row),
                s\<lparr> conversations := keyed conv_id (db_conversations d @ [?row]) \<rparr>)"
    using f(1)
    by (simp add: created_def mem_createConversation_def Let_def c same_rowsD(2)[OF r]
        map_set_keyed_fresh)
  have b: "db_step (CreateConversation i now ic) d
             = (ConversationResult (Some ?row),
                d\<lparr> db_conversations := db_conversations d @ [?row] \<rparr>)"
    using f by (simp add: returned_def db_createConversation_def Let_def)
  have "distinct (map conv_id (db_conversations d @ [?row]))"
    using f(1) same_rowsD(9)[OF r] by simp
  from same_rows_conversations[OF r this] show ?thesis unfolding m b by simp
qed

lemma message_create:
  assumes r: "same_rows s d" and p: "plain (CreateMessage i now im)"
    and a: "\<not> raises (fst (db_step (CreateMessage i now im) d))"
  shows "same_result (fst (mem_step (CreateMessage i now im) s)) (fst (db_step (CreateMessage i now im) d))
         \<and> same_rows (snd (mem_step (CreateMessage i now im) s))
                      (snd (db_step (CreateMessage i now im) d))"
proof -
  from a have f: "i \<notin> msg_id ` set (db_messages d)"
    "imsg_conversationId im \<in> conv_id ` set (db_conversations d)"
    by (auto simp: raises_def returned_def db_createMessage_def split: if_splits)
  from p have c: "or_null (imsg_audioUrl im) = imsg_audioUrl im"
    "or_null_json (imsg_materialIds im) = jsonb_nullable (imsg_materialIds im)"
    by (simp_all add: plain_str_or_null plain_json_or_null)
  let ?row = "\<lparr> msg_id = i, msg_conversationId = imsg_conversationId im, msg_role = imsg_role im,
                msg_content = imsg_content im, msg_audioUrl = imsg_audioUrl im,
                msg_materialIds = jsonb_nullable (imsg_materialIds im),
                msg_timestamp = Some now \<rparr>"
  have m: "mem_step (CreateMessage i now im) s
             = (MessageResult (Some ?row), s\<lparr> messages := keyed msg_id (db_messages d @ [?row]) \<rparr>)"
    using f(1)
    by (simp add: created_def mem_createMessage_def Let_def c same_rowsD(3)[OF r]
        map_set_keyed_fresh)
  have b: "db_step (CreateMessage i now im) d
             = (MessageResult (Some ?row), d\<lparr> db_messages := db_messages d @ [?row] \<rparr>)"
    using f by (simp add: returned_def db_createMessage_def Let_def)
  have "distinct (map msg_id (db_messages d @ [?row]))"
    using f(1) same_rowsD(10)[OF r] by simp
  from same_rows_messages[OF r this] show ?thesis unfolding m b by simp
qed

lemma fold_map_delete_filter:
  "fold (\<lambda>(k, m) acc. snd (map_delete acc k)) rel acc
     = filter (\<lambda>e. fst e \<notin> fst ` set rel) acc"
proof (induction rel arbitrary: acc)
  case Nil
  then show ?case by simp
next
  case (Cons x rel)
  obtain k m where x: "x = (k, m)" by (cases x)
  have "filter (\<lambda>e. fst e \<notin> fst ` set rel) (AList.delete k acc)
          = filter (\<lambda>e. fst e \<notin> fst ` set (x # rel)) acc"
    by (induction acc) (auto simp: x)
  with Cons.IH[of "AList.delete k acc"] show ?case by (simp add: x map_delete_def)
qed

lemma filter_keyed_set:
  "\<forall>r \<in> set rows. (key r \<in> S) = P r
   \<Longrightarrow> filter (\<lambda>e. fst e \<notin> S) (keyed key rows) = keyed key (filter (\<lambda>r. \<not> P r) rows)"
  by (induction rows) (auto simp: keyed_def)

lemma delete_related_keyed:
  assumes "distinct (map key rows)"
  shows "fold (\<lambda>(k, m) acc. snd (map_delete acc k))
           (filter (\<lambda>(k, m). P m) (keyed key rows)) (keyed key rows)
         = keyed key (filter (\<lambda>r. \<not> P r) rows)"
proof -
  have rel: "fst ` set (filter (\<lambda>(k, m). P m) (keyed key rows)) = key ` {r \<in> set rows. P r}"
    by (auto simp: keyed_def image_iff)
  have "\<forall>r \<in> set rows. (key r \<in> key ` {r \<in> set rows. P r}) = P r"
    using assms by (auto simp: distinct_map inj_on_def)
  then have g: "filter (\<lambda>e. fst e \<notin> key ` {r \<in> set rows. P r}) (keyed key rows)
          = keyed key (filter (\<lambda>r. \<not> P r) rows)"
    by (rule filter_keyed_set)
  show ?thesis unfolding fold_map_delete_filter rel by (rule g)
qed

lemma conversation_delete:
  assumes r: "same_rows s d"
  shows "same_result (fst (mem_step (DeleteConversation i) s)) (fst (db_step (DeleteConversation i) d))
         \<and> same_rows (snd (mem_step (DeleteConversation i) s))
                      (snd (db_step (DeleteConversation i) d))"
proof -
  let ?msgs = "filter (\<lambda>m. msg_conversationId m \<noteq> i) (db_messages d)"
  let ?convs = "filter (\<lambda>c. conv_id c \<noteq> i) (db_conversations d)"
  let ?found = "0 < length (filter (\<lambda>c. conv_id c = i) (db_conversations d))"
  have n: "\<not> list_ex (\<lambda>m. msg_conversationId m = i) ?msgs" by (simp add: list_ex_iff)
  have b: "db_step (DeleteConversation i) d
             = (Deleted ?found, d\<lparr> db_messages := ?msgs, db_conversations := ?convs \<rparr>)"
    using n by (simp add: returned_def db_deleteConversation_def Let_def)
  have k: "fold (\<lambda>(messageId, m) acc. snd (map_delete acc messageId))
             (filter (\<lambda>(k, m). msg_conversationId m = i) (keyed msg_id (db_messages d)))
             (keyed msg_id (db_messages d)) = keyed msg_id ?msgs"
    by (rule delete_related_keyed[OF same_rowsD(10)[OF r]])
  have m: "mem_step (DeleteConversation i) s
             = (Deleted ?found, s\<lparr> messages := keyed msg_id ?msgs,
                                     conversations := keyed conv_id ?convs \<rparr>)"
    by (simp add: created_def mem_deleteConversation_def Let_def same_rowsD(2,3)[OF r] k
        map_delete_keyed)
  have d1: "distinct (map msg_id ?msgs)" using same_rowsD(10)[OF r] by (simp add: distinct_map_filter)
  have d2: "distinct (map conv_id ?convs)" using same_rowsD(9)[OF r] by (simp add: distinct_map_filter)
  from same_rows_conversations[OF same_rows_messages[OF r d1] d2]
  show ?thesis unfolding m b by simp
qed

lemma quiz_get:
  assumes "same_rows s d"
  shows "mem_getQuiz s i = db_getQuiz d i"
    "mem_getQuizzesByUser s i = db_getQuizzesByUser d i"
    "mem_getQuizAttempt s i = db_getQuizAttempt d i"
    "mem_getQuizAttemptsByUser s i = db_getQuizAttemptsByUser d i"
  by (simp_all add: same_rowsD(5,6)[OF assms] mem_getQuiz_def db_getQuiz_def map_get_keyed
      mem_getQuizzesByUser_def db_getQuizzesByUser_def map_values_keyed
      mem_getQuizAttempt_def db_getQuizAttempt_def
      mem_getQuizAttemptsByUser_def db_getQuizAttemptsByUser_def)

lemma quiz_create:
  assumes r: "same_rows s d" and p: "plain (CreateQuiz i now iq)"
    and a: "\<not> raises (fst (db_step (CreateQuiz i now iq) d))"
  shows "same_result (fst (mem_step (CreateQuiz i now iq) s)) (fst (db_step (CreateQuiz i now iq) d))
         \<and> same_rows (snd (mem_step (CreateQuiz i now iq) s))
                      (snd (db_step (CreateQuiz i now iq) d))"
proof -
  from a have f: "i \<notin> quiz_id ` set (db_quizzes d)" "iq_userId iq \<in> u_id ` set (db_users d)"
    "iq_questions iq \<noteq> JNull"
    by (auto simp: raises_def returned_def db_createQuiz_def split: if_splits)
  from p have c: "or_null_json (iq_materialIds iq) = jsonb_nullable (iq_materialIds iq)"
    "Some (or_default (nullish (iq_difficulty iq)) ''medium'')
       = nullable_default (iq_difficulty iq) ''medium''"
    by (simp_all add: plain_json_or_null plain_optional_default)
  let ?row = "\<lparr> quiz_id = i, quiz_userId = iq_userId iq, quiz_title = iq_title iq,
                quiz_questions = iq_questions iq,
                quiz_materialIds = jsonb_nullable (iq_materialIds iq),
                quiz_difficulty = nullable_default (iq_difficulty iq) ''medium'',
                quiz_createdAt = Some now \<rparr>"
  have m: "mem_step (CreateQuiz i now iq) s
             = (QuizResult (Some ?row), s\<lparr> quizzes := keyed quiz_id (db_quizzes d @ [?row]) \<rparr>)"
    using f(1)
    by (simp add: created_def mem_createQuiz_def Let_def c same_rowsD(5)[OF r]
        map_set_keyed_fresh)
  have b: "db_step (CreateQuiz i now iq) d
             = (QuizResult (Some ?row), d\<lparr> db_quizzes := db_quizzes d @ [?row] \<rparr>)"
    using f by (simp add: returned_def db_createQuiz_def Let_def)
  have "distinct (map quiz_id (db_quizzes d @ [?row]))"
    using f(1) same_rowsD(12)[OF r] by simp
  from same_rows_quizzes[OF r this] show ?thesis unfolding m b by simp
qed

lemma quiz_delete:
  assumes r: "same_rows s d"
    and a: "\<not> raises (fst (db_step (DeleteQuiz i) d))"
  shows "same_result (fst (mem_step (DeleteQuiz i) s)) (fst (db_step (DeleteQuiz i) d))
         \<and> same_rows (snd (mem_step (DeleteQuiz i) s)) (snd (db_step (DeleteQuiz i) d))"
proof -
  let ?rows = "filter (\<lambda>q. quiz_id q \<noteq> i) (db_quizzes d)"
  have b: "db_step (DeleteQuiz i) d
             = (Deleted (0 < length (filter (\<lambda>q. quiz_id q = i) (db_quizzes d))),
                d\<lparr> db_quizzes := ?rows \<rparr>)"
    using a by (auto simp: raises_def returned_def db_deleteQuiz_def Let_def split: if_splits)
  have m: "mem_step (DeleteQuiz i) s
             = (Deleted (0 < length (filter (\<lambda>q. quiz_id q = i) (db_quizzes d))),
                s\<lparr> quizzes := keyed quiz_id ?rows \<rparr>)"
    by (simp add: created_def mem_deleteQuiz_def same_rowsD(5)[OF r] map_delete_keyed)
  have "distinct (map quiz_id ?rows)" using same_rowsD(12)[OF r] by (simp add: distinct_map_filter)
  from same_rows_quizzes[OF r this] show ?thesis unfolding m b by simp
qed

lemma attempt_create:
  assumes r: "same_rows s d"
    and a: "\<not> raises (fst (db_step (CreateQuizAttempt i now ia) d))"
  shows "same_result (fst (mem_step (CreateQuizAttempt i now ia) s)) (fst (db_step (CreateQuizAttempt i now ia) d))
         \<and> same_rows (snd (mem_step (CreateQuizAttempt i now ia) s))
                      (snd (db_step (CreateQuizAttempt i now ia) d))"
proof -
  from a have f: "i \<notin> att_id ` set (db_quizAttempts d)" "ia_userId ia \<in> u_id ` set (db_users d)"
    "ia_quizId ia \<in> quiz_id ` set (db_quizzes d)" "ia_answers ia \<noteq> JNull"
    by (auto simp: raises_def returned_def db_createQuizAttempt_def split: if_splits)
  let ?row = "\<lparr> att_id = i, att_userId = ia_userId ia, att_quizId = ia_quizId ia,
                att_answers = ia_answers ia, att_score = ia_score ia,
                att_totalQuestions = ia_totalQuestions ia, att_completedAt = Some now \<rparr>"
  have m: "mem_step (CreateQuizAttempt i now ia) s
             = (AttemptResult (Some ?row),
                s\<lparr> quizAttempts := keyed att_id (db_quizAttempts d @ [?row]) \<rparr>)"
    using f(1)
    by (simp add: created_def mem_createQuizAttempt_def Let_def same_rowsD(6)[OF r]
        map_set_keyed_fresh)
  have b: "db_step (CreateQuizAttempt i now ia) d
             = (AttemptResult (Some ?row), d\<lparr> db_quizAttempts := db_quizAttempts d @ [?row] \<rparr>)"
    using f by (simp add: returned_def db_createQuizAttempt_def Let_def)
  have "distinct (map att_id (db_quizAttempts d @ [?row]))"
    using f(1) same_rowsD(13)[OF r] by simp
  from same_rows_quizAttempts[OF r this] show ?thesis unfolding m b by simp
qed

subsection \<open>The tables that are updated: mind maps\<close>

lemma same_rows_mindMaps:
  "same_rows s d \<Longrightarrow> same_table mm_id m rows
   \<Longrightarrow> same_rows (s\<lparr> mindMaps := m \<rparr>) (d\<lparr> db_mindMaps := rows \<rparr>)"
  by (simp add: same_rows_def)

lemma filter_unique:
  assumes "distinct (map key rows)" and "r \<in> set rows"
  shows "filter (\<lambda>x. key x = key r) rows = [r]"
  using assms by (induction rows) (auto simp: filter_empty_conv image_iff)

lemma first_row_filter_cases:
  assumes "distinct (map key rows)"
  shows "(first_row (filter (\<lambda>x. key x = i) rows) = None \<and> filter (\<lambda>x. key x = i) rows = [])
       \<or> (\<exists>r. first_row (filter (\<lambda>x. key x = i) rows) = Some r
              \<and> filter (\<lambda>x. key x = i) rows = [r] \<and> r \<in> set rows \<and> key r = i)"
proof (cases "filter (\<lambda>x. key x = i) rows")
  case Nil
  then show ?thesis by (simp add: first_row_def)
next
  case (Cons r rest)
  then have "r \<in> set (filter (\<lambda>x. key x = i) rows)" by simp
  then have r: "r \<in> set rows" "key r = i" by simp_all
  from filter_unique[OF assms r(1)] r(2) show ?thesis by (auto simp: first_row_def r)
qed

lemma mindMap_get:
  assumes "same_rows s d"
  shows "mem_getMindMap s i = db_getMindMap d i"
    "mset (mem_getMindMapsByUser s i) = mset (db_getMindMapsByUser d i)"
  using same_table_get[OF same_rowsD(4)[OF assms]] same_table_filter[OF same_rowsD(4)[OF assms]]
  by (simp_all add: mem_getMindMap_def db_getMindMap_def mem_getMindMapsByUser_def
      db_getMindMapsByUser_def del: mset_filter)

lemma mindMap_create:
  assumes r: "same_rows s d" and p: "plain (CreateMindMap i now im)"
    and a: "\<not> raises (fst (db_step (CreateMindMap i now im) d))"
  shows "same_result (fst (mem_step (CreateMindMap i now im) s))
           (fst (db_step (CreateMindMap i now im) d))
         \<and> same_rows (snd (mem_step (CreateMindMap i now im) s))
                      (snd (db_step (CreateMindMap i now im) d))"
proof -
  from a have f: "imm_nodes im \<noteq> JNull" "i \<notin> mm_id ` set (db_mindMaps d)"
    "imm_userId im \<in> u_id ` set (db_users d)"
    by (auto simp: raises_def returned_def db_createMindMap_def split: if_splits)
  from p have c: "or_null_json (imm_materialIds im) = jsonb_nullable (imm_materialIds im)"
    by (simp add: plain_json_or_null)
  let ?row = "\<lparr> mm_id = i, mm_userId = imm_userId im, mm_title = imm_title im,
                mm_nodes = imm_nodes im, mm_materialIds = jsonb_nullable (imm_materialIds im),
                mm_createdAt = Some now, mm_updatedAt = Some now \<rparr>"
  have m: "mem_step (CreateMindMap i now im) s
             = (MindMapResult (Some ?row), s\<lparr> mindMaps := map_set (mindMaps s) i ?row \<rparr>)"
    by (simp add: created_def mem_createMindMap_def Let_def c)
  have b: "db_step (CreateMindMap i now im) d
             = (MindMapResult (Some ?row), d\<lparr> db_mindMaps := db_mindMaps d @ [?row] \<rparr>)"
    using f by (simp add: returned_def db_createMindMap_def Let_def)
  have "same_table mm_id (map_set (mindMaps s) (mm_id ?row) ?row) (db_mindMaps d @ [?row])"
    by (rule same_table_insert[OF same_rowsD(4)[OF r]]) (use f(2) in simp)
  then have "same_table mm_id (map_set (mindMaps s) i ?row) (db_mindMaps d @ [?row])" by simp
  from same_rows_mindMaps[OF r this] show ?thesis unfolding m b by simp
qed

lemma mindMap_delete:
  assumes r: "same_rows s d"
  shows "same_result (fst (mem_step (DeleteMindMap i) s)) (fst (db_step (DeleteMindMap i) d))
         \<and> same_rows (snd (mem_step (DeleteMindMap i) s)) (snd (db_step (DeleteMindMap i) d))"
proof -
  note t = same_table_delete[OF same_rowsD(4)[OF r], of i]
  have m: "mem_step (DeleteMindMap i) s
             = (Deleted (fst (map_delete (mindMaps s) i)),
                s\<lparr> mindMaps := snd (map_delete (mindMaps s) i) \<rparr>)"
    by (simp add: created_def mem_deleteMindMap_def case_prod_beta)
  have b: "db_step (DeleteMindMap i) d
             = (Deleted (0 < length (filter (\<lambda>m. mm_id m = i) (db_mindMaps d))),
                d\<lparr> db_mindMaps := filter (\<lambda>m. mm_id m \<noteq> i) (db_mindMaps d) \<rparr>)"
    by (simp add: returned_def db_deleteMindMap_def Let_def)
  from same_rows_mindMaps[OF r t(1)] t(2) show ?thesis unfolding m b by simp
qed

lemma mindMap_update:
  assumes r: "same_rows s d" and p: "plain (UpdateMindMap now i u)"
    and a: "\<not> raises (fst (db_step (UpdateMindMap now i u) d))"
  shows "same_result (fst (mem_step (UpdateMindMap now i u) s))
           (fst (db_step (UpdateMindMap now i u) d))
         \<and> same_rows (snd (mem_step (UpdateMindMap now i u) s))
                      (snd (db_step (UpdateMindMap now i u) d))"
proof -
  let ?upd = "\<lambda>m. (spread_mindMap m u)\<lparr> mm_updatedAt := Some now \<rparr>"
  note g = same_table_get[OF same_rowsD(4)[OF r], of i]
  from first_row_filter_cases[OF same_rowsD(11)[OF r], of i]
  show ?thesis
  proof (elim disjE conjE exE)
    assume n: "first_row (filter (\<lambda>x. mm_id x = i) (db_mindMaps d)) = None"
      and e: "filter (\<lambda>x. mm_id x = i) (db_mindMaps d) = []"
    have m: "mem_step (UpdateMindMap now i u) s = (MindMapResult None, s)"
      using n g by (simp add: created_def mem_updateMindMap_def)
    have b: "db_step (UpdateMindMap now i u) d = (MindMapResult None, d)"
      using e by (simp add: returned_def db_updateMindMap_def Let_def)
    show ?thesis unfolding m b using r by simp
  next
    fix x
    assume n: "first_row (filter (\<lambda>x. mm_id x = i) (db_mindMaps d)) = Some x"
      and e: "filter (\<lambda>x. mm_id x = i) (db_mindMaps d) = [x]"
      and x: "x \<in> set (db_mindMaps d)" "mm_id x = i"
    from p x(2) have keep: "mm_id (?upd x) = i"
      by (auto simp: spread_mindMap_def split: option.splits)
    have m: "mem_step (UpdateMindMap now i u) s
               = (MindMapResult (Some (?upd x)), s\<lparr> mindMaps := map_set (mindMaps s) i (?upd x) \<rparr>)"
      using n g by (simp add: created_def mem_updateMindMap_def Let_def)
    have b: "db_step (UpdateMindMap now i u) d
               = (MindMapResult (Some (?upd x)),
                  d\<lparr> db_mindMaps := filter (\<lambda>m. mm_id m \<noteq> i) (db_mindMaps d) @ [?upd x] \<rparr>)"
      using a e
      by (auto simp: raises_def returned_def db_updateMindMap_def Let_def first_row_def
          split: if_splits)
    have "same_table mm_id (map_set (mindMaps s) (mm_id (?upd x)) (?upd x))
            (filter (\<lambda>m. mm_id m \<noteq> mm_id (?upd x)) (db_mindMaps d) @ [?upd x])"
      by (rule same_table_update[OF same_rowsD(4)[OF r]]) (use x keep in \<open>auto simp: image_iff\<close>)
    then have "same_table mm_id (map_set (mindMaps s) i (?upd x))
                 (filter (\<lambda>m. mm_id m \<noteq> i) (db_mindMaps d) @ [?upd x])"
      unfolding keep .
    from same_rows_mindMaps[OF r this] show ?thesis unfolding m b by simp
  qed
qed

subsection \<open>The tables that are updated: users\<close>

lemma stripped_get:
  "map_get (map (\<lambda>(k, u). (k, strip_role u)) m) i = map_option strip_role (map_get m i)"
  by (induction m) (auto simp: map_get_def)

lemma stripped_set:
  "map (\<lambda>(k, u). (k, strip_role u)) (map_set m k v)
     = map_set (map (\<lambda>(k, u). (k, strip_role u)) m) k (strip_role v)"
  by (induction m) (auto simp: map_set_def)

lemma stripped_values:
  "map_values (map (\<lambda>(k, u). (k, strip_role u)) m) = map strip_role (map_values m)"
  by (induction m) (auto simp: map_values_def)

lemma strip_role_idem [simp]: "strip_role (strip_role u) = strip_role u"
  by (simp add: strip_role_def)

lemma spread_strip:
  "spread_user (strip_role u) p = strip_role (spread_user u p)"
  by (simp add: spread_user_def strip_role_def split: option.splits)

lemma db_users_stripped:
  assumes r: "same_rows s d" and x: "x \<in> set (db_users d)"
  shows "strip_role x = x"
proof -
  from same_table_set[OF same_rowsD(7)[OF r], of "u_id x" x] x
  have "(u_id x, x) \<in> set (map (\<lambda>(k, u). (k, strip_role u)) (users s))" by simp
  then obtain u where "x = strip_role u" by auto
  then show ?thesis by simp
qed

lemma db_first_row_stripped:
  assumes r: "same_rows s d"
  shows "map_option strip_role (first_row (filter P (db_users d))) = first_row (filter P (db_users d))"
proof (cases "first_row (filter P (db_users d))")
  case None
  then show ?thesis by simp
next
  case (Some x)
  then have "x \<in> set (db_users d)" by (auto dest: first_row_filter_SomeD)
  from db_users_stripped[OF r this] Some show ?thesis by simp
qed

lemma first_row_filter_map:
  assumes "\<And>r. p (f r) = p r"
  shows "first_row (filter p (map f rows)) = map_option f (first_row (filter p rows))"
  using assms by (induction rows) (auto simp: first_row_def)

lemma same_rows_users:
  "same_rows s d \<Longrightarrow> same_table u_id (map (\<lambda>(k, u). (k, strip_role u)) m) rows
   \<Longrightarrow> distinct (map u_username rows) \<Longrightarrow> distinct (map u_email rows)
   \<Longrightarrow> same_rows (s\<lparr> users := m \<rparr>) (d\<lparr> db_users := rows \<rparr>)"
  by (simp add: same_rows_def)

lemma user_get:
  assumes r: "same_rows s d"
  shows "map_option strip_role (mem_getUser s i) = db_getUser d i"
    "map_option strip_role (mem_getUserByUsername s i) = db_getUserByUsername d i"
    "map_option strip_role (mem_getUserByEmail s i) = db_getUserByEmail d i"
proof -
  note t = same_rowsD(7)[OF r]
  from same_table_get[OF t, of i]
  show "map_option strip_role (mem_getUser s i) = db_getUser d i"
    by (simp add: mem_getUser_def db_getUser_def stripped_get)
  from same_table_values[OF t]
  have v: "mset (map strip_role (map_values (users s))) = mset (db_users d)"
    by (simp only: stripped_values)
  have "map_option strip_role (mem_getUserByUsername s i)
          = first_row (filter (\<lambda>u. u_username u = i) (map strip_role (map_values (users s))))"
    by (simp add: mem_getUserByUsername_def find_first_row first_row_filter_map)
  also have "\<dots> = first_row (filter (\<lambda>u. u_username u = i) (db_users d))"
    by (rule same_unique[OF v same_rowsD(14)[OF r]])
  finally show "map_option strip_role (mem_getUserByUsername s i) = db_getUserByUsername d i"
    by (simp add: db_getUserByUsername_def)
  have "map_option strip_role (mem_getUserByEmail s i)
          = first_row (filter (\<lambda>u. u_email u = i) (map strip_role (map_values (users s))))"
    by (simp add: mem_getUserByEmail_def find_first_row first_row_filter_map)
  also have "\<dots> = first_row (filter (\<lambda>u. u_email u = i) (db_users d))"
    by (rule same_unique[OF v same_rowsD(15)[OF r]])
  finally show "map_option strip_role (mem_getUserByEmail s i) = db_getUserByEmail d i"
    by (simp add: db_getUserByEmail_def)
qed

lemma user_get_same:
  assumes r: "same_rows s d"
  shows "map_option strip_role (mem_getUser s i) = map_option strip_role (db_getUser d i)"
    "map_option strip_role (mem_getUserByUsername s i)
       = map_option strip_role (db_getUserByUsername d i)"
    "map_option strip_role (mem_getUserByEmail s i)
       = map_option strip_role (db_getUserByEmail d i)"
  using db_first_row_stripped[OF r]
  by (simp_all add: user_get[OF r] db_getUser_def db_getUserByUsername_def db_getUserByEmail_def)

lemma user_create:
  assumes r: "same_rows s d" and p: "plain (CreateUser i now iu)"
    and a: "\<not> raises (fst (db_step (CreateUser i now iu) d))"
  shows "same_result (fst (mem_step (CreateUser i now iu) s)) (fst (db_step (CreateUser i now iu) d))
         \<and> same_rows (snd (mem_step (CreateUser i now iu) s))
                      (snd (db_step (CreateUser i now iu) d))"
proof -
  from a have f: "i \<notin> u_id ` set (db_users d)" "iu_username iu \<notin> u_username ` set (db_users d)"
    "iu_email iu \<notin> u_email ` set (db_users d)"
    by (auto simp: raises_def returned_def db_createUser_def split: if_splits)
  from p have c: "or_default (iu_plan iu) ''free'' = column_default (iu_plan iu) ''free''"
    "or_default (iu_language iu) ''en'' = column_default (iu_language iu) ''en''"
    by (simp_all add: plain_str_or_default)
  let ?u = "\<lparr> u_id = i, u_username = iu_username iu, u_password = iu_password iu,
              u_email = iu_email iu, u_plan = column_default (iu_plan iu) ''free'',
              u_language = column_default (iu_language iu) ''en'', u_createdAt = Some now,
              u_role = Some (or_default (iu_role iu) ''student'') \<rparr>"
  let ?row = "\<lparr> u_id = i, u_username = iu_username iu, u_password = iu_password iu,
              u_email = iu_email iu, u_plan = column_default (iu_plan iu) ''free'',
              u_language = column_default (iu_language iu) ''en'', u_createdAt = Some now,
              u_role = None \<rparr>"
  have m: "mem_step (CreateUser i now iu) s
             = (UserResult (Some ?u), s\<lparr> users := map_set (users s) i ?u \<rparr>)"
    by (simp add: created_def mem_createUser_def Let_def c)
  have b: "db_step (CreateUser i now iu) d
              = (UserResult (Some ?row), d\<lparr> db_users := db_users d @ [?row] \<rparr>)"
    using f by (simp add: returned_def db_createUser_def Let_def)
  have row: "strip_role ?u = ?row" "strip_role ?row = ?row" by (simp_all add: strip_role_def)
  have "same_table u_id (map_set (map (\<lambda>(k, u). (k, strip_role u)) (users s)) (u_id ?row) ?row)
          (db_users d @ [?row])"
    by (rule same_table_insert[OF same_rowsD(7)[OF r]]) (use f(1) in simp)
  then have t: "same_table u_id (map (\<lambda>(k, u). (k, strip_role u)) (map_set (users s) i ?u))
                  (db_users d @ [?row])"
    by (simp add: stripped_set row)
  have n: "distinct (map u_username (db_users d @ [?row]))"
    "distinct (map u_email (db_users d @ [?row]))"
    using f(2,3) same_rowsD(14,15)[OF r] by simp_all
  from same_rows_users[OF r t n] show ?thesis unfolding m b by (simp add: row)
qed

lemma distinct_replaced:
  assumes d: "distinct (map f rows)" and x: "x \<in> set rows" "key x = i"
    and k: "distinct (map key rows)"
    and n: "f y = f x \<or> f y \<notin> f ` set (filter (\<lambda>r. key r \<noteq> i) rows)"
  shows "distinct (map f (filter (\<lambda>r. key r \<noteq> i) rows @ [y]))"
proof -
  have "f x \<notin> f ` set (filter (\<lambda>r. key r \<noteq> i) rows)"
  proof
    assume "f x \<in> f ` set (filter (\<lambda>r. key r \<noteq> i) rows)"
    then obtain z where z: "z \<in> set rows" "key z \<noteq> i" "f z = f x" by auto
    from d z(1) x(1) z(3) have "z = x" by (auto simp: distinct_map inj_on_def)
    with z(2) x(2) show False by simp
  qed
  with n have "f y \<notin> f ` set (filter (\<lambda>r. key r \<noteq> i) rows)" by auto
  with d show ?thesis by (simp add: distinct_map_filter)
qed

lemma user_update:
  assumes r: "same_rows s d" and p: "plain (UpdateUser i u)"
    and a: "\<not> raises (fst (db_step (UpdateUser i u) d))"
  shows "same_result (fst (mem_step (UpdateUser i u) s)) (fst (db_step (UpdateUser i u) d))
         \<and> same_rows (snd (mem_step (UpdateUser i u) s)) (snd (db_step (UpdateUser i u) d))"
proof -
  note t = same_rowsD(7)[OF r]
  from same_table_get[OF t, of i]
  have g: "map_option strip_role (map_get (users s) i)
             = first_row (filter (\<lambda>x. u_id x = i) (db_users d))"
    by (simp add: stripped_get)
  from a have v: "\<not> (pu_id u = None \<and> pu_username u = None \<and> pu_password u = None
            \<and> pu_email u = None \<and> pu_plan u = None \<and> pu_language u = None
            \<and> pu_createdAt u = None)"
    by (auto simp: raises_def returned_def db_updateUser_def Let_def split: if_splits)
  from first_row_filter_cases[OF same_rowsD(16)[OF r], of i]
  show ?thesis
  proof (elim disjE conjE exE)
    assume n: "first_row (filter (\<lambda>x. u_id x = i) (db_users d)) = None"
      and e: "filter (\<lambda>x. u_id x = i) (db_users d) = []"
    from n g have "map_get (users s) i = None" by simp
    then have m: "mem_step (UpdateUser i u) s = (UserResult None, s)"
      by (simp add: created_def mem_updateUser_def)
    have b: "db_step (UpdateUser i u) d = (UserResult None, d)"
      using e v by (simp add: returned_def db_updateUser_def Let_def)
    show ?thesis unfolding m b using r by simp
  next
    fix x
    assume n: "first_row (filter (\<lambda>x. u_id x = i) (db_users d)) = Some x"
      and e: "filter (\<lambda>x. u_id x = i) (db_users d) = [x]"
      and x: "x \<in> set (db_users d)" "u_id x = i"
    let ?others = "filter (\<lambda>x. u_id x \<noteq> i) (db_users d)"
    let ?row = "spread_user x u"
    from n g obtain y where y: "map_get (users s) i = Some y" "strip_role y = x" by auto
    from p x(2) have keep: "u_id ?row = i"
      by (auto simp: spread_user_def split: option.splits)
    have sr: "strip_role (spread_user y u) = ?row"
      unfolding y(2)[symmetric] by (simp add: spread_strip)
    have m: "mem_step (UpdateUser i u) s
               = (UserResult (Some (spread_user y u)),
                  s\<lparr> users := map_set (users s) i (spread_user y u) \<rparr>)"
      using y(1) by (simp add: created_def mem_updateUser_def Let_def)
    from a e v have c:
      "\<not> (case pu_username u of None \<Rightarrow> False | Some n \<Rightarrow> n \<in> set (map u_username ?others))"
      "\<not> (case pu_email u of None \<Rightarrow> False | Some n \<Rightarrow> n \<in> set (map u_email ?others))"
      by (auto simp: raises_def returned_def db_updateUser_def Let_def split: if_splits)
    have b: "db_step (UpdateUser i u) d
               = (UserResult (Some ?row), d\<lparr> db_users := ?others @ [?row] \<rparr>)"
      using a e v
      by (auto simp: raises_def returned_def db_updateUser_def Let_def first_row_def
          split: if_splits)
    have "same_table u_id
            (map_set (map (\<lambda>(k, u). (k, strip_role u)) (users s)) (u_id ?row) ?row)
            (filter (\<lambda>m. u_id m \<noteq> u_id ?row) (db_users d) @ [?row])"
      by (rule same_table_update[OF t]) (use x keep in \<open>auto simp: image_iff\<close>)
    then have t': "same_table u_id
            (map (\<lambda>(k, u). (k, strip_role u)) (map_set (users s) i (spread_user y u)))
            (?others @ [?row])"
      unfolding keep by (simp add: stripped_set sr)
    have dn: "distinct (map u_username (?others @ [?row]))"
      by (rule distinct_replaced[OF same_rowsD(14)[OF r] x same_rowsD(16)[OF r]])
        (use c(1) in \<open>auto simp: spread_user_def split: option.splits\<close>)
    have de: "distinct (map u_email (?others @ [?row]))"
      by (rule distinct_replaced[OF same_rowsD(15)[OF r] x same_rowsD(16)[OF r]])
        (use c(2) in \<open>auto simp: spread_user_def split: option.splits\<close>)
    have sx: "strip_role ?row = ?row"
      using db_users_stripped[OF r x(1)] spread_strip[of x u] by simp
    from same_rows_users[OF r t' dn de] show ?thesis unfolding m b by (simp add: sr sx)
  qed
qed

subsection \<open>Every call, and every sequence of calls\<close>

lemma messages_sorted: "sorted (map timestamp_key (db_getMessagesByConversation d c))"
  by (simp add: db_getMessagesByConversation_def)

lemma step_simulation:
  assumes r: "same_rows s d" and p: "plain x" and a: "\<not> raises (fst (db_step x d))"
  shows "same_result (fst (mem_step x s)) (fst (db_step x d))
         \<and> same_rows (snd (mem_step x s)) (snd (db_step x d))"
proof (cases x)
  case (CreateUser i now iu)
  with user_create[OF r] p a show ?thesis by simp
next
  case (UpdateUser i u)
  with user_update[OF r] p a show ?thesis by simp
next
  case (CreateMaterial i now im)
  with material_create[OF r] p a show ?thesis by simp
next
  case (DeleteMaterial i)
  with material_delete[OF r] show ?thesis by simp
next
  case (CreateConversation i now ic)
  with conversation_create[OF r] p a show ?thesis by simp
next
  case (DeleteConversation i)
  with conversation_delete[OF r] show ?thesis by simp
next
  case (CreateMessage i now im)
  with message_create[OF r] p a show ?thesis by simp
next
  case (CreateMindMap i now im)
  with mindMap_create[OF r] p a show ?thesis by simp
next
  case (UpdateMindMap now i u)
  with mindMap_update[OF r] p a show ?thesis by simp
next
  case (DeleteMindMap i)
  with mindMap_delete[OF r] show ?thesis by simp
next
  case (CreateQuiz i now iq)
  with quiz_create[OF r] p a show ?thesis by simp
next
  case (DeleteQuiz i)
  with quiz_delete[OF r] a show ?thesis by simp
next
  case (CreateQuizAttempt i now ia)
  with attempt_create[OF r] a show ?thesis by simp
qed (simp_all add: r user_get_same[OF r] material_get[OF r] conversation_get[OF r]
      mindMap_get[OF r] quiz_get[OF r] messages_sorted)

lemma run_simulation:
  "same_rows s d \<Longrightarrow> admissible xs d \<Longrightarrow> list_all2 same_result (mem_run xs s) (db_run xs d)"
proof (induction xs arbitrary: s d)
  case Nil
  then show ?case by simp
next
  case (Cons x xs)
  from Cons.prems(2) have p: "plain x" and a: "\<not> raises (fst (db_step x d))"
    and rest: "admissible xs (snd (db_step x d))" by simp_all
  from step_simulation[OF Cons.prems(1) p a]
  have o: "same_result (fst (mem_step x s)) (fst (db_step x d))"
    and r: "same_rows (snd (mem_step x s)) (snd (db_step x d))" by simp_all
  from Cons.IH[OF r rest] o show ?case by (simp add: case_prod_beta)
qed

lemma same_rows_new: "same_rows newMemStorage newDatabaseStorage"
  by (simp add: same_rows_def same_table_def newMemStorage_def newDatabaseStorage_def keyed_def)

text \<open>
  Claim C9, as amended. Started empty and given the same identifiers and times, the two
  implementations return the same results, call for call, on every sequence of interface
  calls that the database does not refuse, that passes no value on which the \<open>||\<close>
  fallback of the in-memory store fires, and that changes the id of no user and no mind
  map. A user is compared without the \<open>role\<close> that only the in-memory store gives it, the
  list of a \<open>get...ByUser\<close> call as a multiset, the messages of a conversation as the same
  messages in ascending order of their timestamps.
\<close>

theorem storage_simulation:
  assumes "admissible calls newDatabaseStorage"
  shows "list_all2 same_result (mem_run calls newMemStorage) (db_run calls newDatabaseStorage)"
  using run_simulation[OF same_rows_new assms] .

lemmas run_defs =
  newMemStorage_def newDatabaseStorage_def created_def returned_def Let_def first_row_def
  map_get_def map_set_def map_delete_def map_has_def map_values_def
  or_default_def or_null_def or_null_json_def column_default_def nullable_default_def
  nullish_def jsonb_nullable_def spread_mindMap_def no_updates_def
  alice_def cells_def stars_def notes_material_def untitled_quiz_def
  mem_createUser_def db_createUser_def mem_createMaterial_def db_createMaterial_def
  mem_getMaterial_def db_getMaterial_def mem_getMaterialsByUser_def db_getMaterialsByUser_def
  mem_deleteMaterial_def db_deleteMaterial_def mem_createMindMap_def db_createMindMap_def
  mem_updateMindMap_def db_updateMindMap_def mem_getMindMap_def db_getMindMap_def
  mem_getMindMapsByUser_def db_getMindMapsByUser_def mem_createQuiz_def db_createQuiz_def

theorem storage_simulation_witness:
  "admissible sample_calls newDatabaseStorage
   \<and> list_all2 same_result (mem_run sample_calls newMemStorage)
         (db_run sample_calls newDatabaseStorage)
   \<and> mem_run sample_calls newMemStorage ! 4
       = MindMapList
           [\<lparr> mm_id = ''ma'', mm_userId = ''u1'', mm_title = ''Cell biology'', mm_nodes = JObj [],
              mm_materialIds = None, mm_createdAt = Some 2, mm_updatedAt = Some 4 \<rparr>,
            \<lparr> mm_id = ''mb'', mm_userId = ''u1'', mm_title = ''Stars'', mm_nodes = JObj [],
              mm_materialIds = None, mm_createdAt = Some 3, mm_updatedAt = Some 3 \<rparr>]
   \<and> db_run sample_calls newDatabaseStorage ! 8 = MaterialResult None"
proof -
  have a: "admissible sample_calls newDatabaseStorage"
    by (simp add: sample_calls_def run_defs raises_def plain_str_def plain_json_def)
  from storage_simulation[OF a] a show ?thesis
    by (simp add: sample_calls_def run_defs)
qed

text \<open>
  The claim as stated, for every sequence of calls and results compared as they are,
  fails. A material created for a user that was never created is stored and returned by
  the in-memory store, while the database refuses the insert, the owner being a foreign key,
  and then finds nothing. A quiz created with the difficulty \<open>null\<close> has the difficulty
  \<open>medium\<close> in the in-memory store and none in the database. A mind map whose id an
  update has changed is still found under the old id by the in-memory store and no longer
  by the database. After an update the database lists the updated mind map last, the
  in-memory store at its old place.
\<close>

theorem storage_counterexample:
  "mem_run orphan_calls newMemStorage
     = [MaterialResult (Some \<lparr> mat_id = ''m1'', mat_userId = ''u1'', mat_filename = ''notes.txt'',
                                mat_type = ''text'',
                                mat_content = Some ''photosynthesis converts light to energy'',
                                mat_metadata = None, mat_uploadedAt = Some 9 \<rparr>),
        MaterialResult (Some \<lparr> mat_id = ''m1'', mat_userId = ''u1'', mat_filename = ''notes.txt'',
                                mat_type = ''text'',
                                mat_content = Some ''photosynthesis converts light to energy'',
                                mat_metadata = None, mat_uploadedAt = Some 9 \<rparr>)]
   \<and> db_run orphan_calls newDatabaseStorage
     = [Raises ForeignKeyViolation, MaterialResult None]
   \<and> mem_run null_calls newMemStorage ! 1
     = QuizResult (Some \<lparr> quiz_id = ''q1'', quiz_userId = ''u1'', quiz_title = ''Quiz'',
                            quiz_questions = JArr [], quiz_materialIds = None,
                            quiz_difficulty = Some ''medium'', quiz_createdAt = Some 2 \<rparr>)
   \<and> db_run null_calls newDatabaseStorage ! 1
     = QuizResult (Some \<lparr> quiz_id = ''q1'', quiz_userId = ''u1'', quiz_title = ''Quiz'',
                            quiz_questions = JArr [], quiz_materialIds = None,
                            quiz_difficulty = None, quiz_createdAt = Some 2 \<rparr>)
   \<and> mem_run rename_calls newMemStorage ! 3
     = MindMapResult (Some \<lparr> mm_id = ''mz'', mm_userId = ''u1'', mm_title = ''Cells'',
                               mm_nodes = JObj [], mm_materialIds = None,
                               mm_createdAt = Some 2, mm_updatedAt = Some 3 \<rparr>)
   \<and> db_run rename_calls newDatabaseStorage ! 3 = MindMapResult None
   \<and> mem_run sample_calls newMemStorage ! 4
     = MindMapList
         [\<lparr> mm_id = ''ma'', mm_userId = ''u1'', mm_title = ''Cell biology'', mm_nodes = JObj [],
            mm_materialIds = None, mm_createdAt = Some 2, mm_updatedAt = Some 4 \<rparr>,
          \<lparr> mm_id = ''mb'', mm_userId = ''u1'', mm_title = ''Stars'', mm_nodes = JObj [],
            mm_materialIds = None, mm_createdAt = Some 3, mm_updatedAt = Some 3 \<rparr>]
   \<and> db_run sample_calls newDatabaseStorage ! 4
     = MindMapList
         [\<lparr> mm_id = ''mb'', mm_userId = ''u1'', mm_title = ''Stars'', mm_nodes = JObj [],
            mm_materialIds = None, mm_createdAt = Some 3, mm_updatedAt = Some 3 \<rparr>,
          \<lparr> mm_id = ''ma'', mm_userId = ''u1'', mm_title = ''Cell biology'', mm_nodes = JObj [],
            mm_materialIds = None, mm_createdAt = Some 2, mm_updatedAt = Some 4 \<rparr>]"
  by (simp add: orphan_calls_def null_calls_def rename_calls_def sample_calls_def run_defs)


end
